theory Spec2Isabelle
  imports Complex_Main "HOL-Library.Sublist" "HOL-Library.AList" "HOL-Library.Multiset"
begin

section \<open>The football match API (fullapi.php) as a shallow embedding\<close>

text \<open>
  The program is one PHP class, \<^verbatim>\<open>FootballAPI\<close>, in a file that declares
  \<^verbatim>\<open>strict_types=1\<close>. Its methods are translated one by one and keep their names.
  An exception that the code does not catch is a value \<open>Inl e\<close> of the result type; the
  only one that the translated methods can raise is PHP's \<^verbatim>\<open>TypeError\<close>, which is an
  \<^verbatim>\<open>Error\<close> and therefore passes through the two \<^verbatim>\<open>catch (\Exception $e)\<close> clauses
  of the file.

  A PHP float is the rational number it denotes. What the PHP runtime does and the
  program does not decide is a parameter of the model (the record \<open>php_env\<close> below):
  the parsing of dates, the rounding of an exact result to the nearest double, the
  function \<^verbatim>\<open>round\<close>, the conversions of strings and floats, and the order that
  \<^verbatim>\<open>usort\<close> leaves when its callback is not an order.
\<close>

datatype php_error = TypeError

subsection \<open>PHP string functions used by the code\<close>

definition tolower :: "char \<Rightarrow> char" where
  "tolower c =
     (if 65 \<le> (of_char c :: nat) \<and> (of_char c :: nat) \<le> 90
      then char_of ((of_char c :: nat) + 32) else c)"

definition strtolower :: "string \<Rightarrow> string" where
  "strtolower s = map tolower s"

text \<open>
  \<^verbatim>\<open>strcasecmp\<close> compares byte by byte after lower-casing and falls back on the
  difference of the lengths; the code only ever tests the result against 0.
\<close>

fun strcasecmp :: "string \<Rightarrow> string \<Rightarrow> int" where
  "strcasecmp [] [] = 0"
| "strcasecmp [] (y # ys) = - int (length (y # ys))"
| "strcasecmp (x # xs) [] = int (length (x # xs))"
| "strcasecmp (x # xs) (y # ys) =
     (if tolower x = tolower y then strcasecmp xs ys
      else int (of_char (tolower x)) - int (of_char (tolower y)))"

definition str_starts_with :: "string \<Rightarrow> string \<Rightarrow> bool" where
  "str_starts_with haystack needle = prefix needle haystack"

text \<open>\<^verbatim>\<open>str_replace($search, '', $subject)\<close>: every occurrence is removed, left to right.\<close>

fun str_remove :: "string \<Rightarrow> string \<Rightarrow> string" where
  "str_remove search [] = []"
| "str_remove search (c # cs) =
     (if search \<noteq> [] \<and> prefix search (c # cs)
      then str_remove search (drop (length search) (c # cs))
      else c # str_remove search cs)"

text \<open>\<^verbatim>\<open>empty($s)\<close> and the conversion to bool of a string: \<^verbatim>\<open>""\<close> and \<^verbatim>\<open>"0"\<close> are falsy.\<close>

definition php_empty :: "string \<Rightarrow> bool" where
  "php_empty s = (s = [] \<or> s = ''0'')"

definition is_digit :: "char \<Rightarrow> bool" where
  "is_digit c = (48 \<le> (of_char c :: nat) \<and> (of_char c :: nat) \<le> 57)"

fun digits_value :: "int \<Rightarrow> string \<Rightarrow> int" where
  "digits_value acc [] = acc"
| "digits_value acc (c # cs) = digits_value (acc * 10 + ((of_char c :: int) - 48)) cs"

definition PHP_INT_MAX :: int where
  "PHP_INT_MAX = 9223372036854775807"

definition PHP_INT_MIN :: int where
  "PHP_INT_MIN = - 9223372036854775808"

text \<open>
  A string key that is a decimal integer in canonical form (no sign but \<open>-\<close>, no leading
  zero, within the 64-bit range) is stored by a PHP array as an int key, and \<^verbatim>\<open>foreach\<close>
  hands it back as an int.
\<close>

definition is_int_key :: "string \<Rightarrow> bool" where
  "is_int_key s =
     (case s of
        [] \<Rightarrow> False
      | c # cs \<Rightarrow>
          if s = ''0'' then True
          else
            (let neg = (c = CHR ''-'');
                 ds = (if neg then cs else s)
             in if ds = [] \<or> \<not> list_all is_digit ds \<or> hd ds = CHR ''0'' then False
                else
                  (let v = (if neg then - digits_value 0 ds else digits_value 0 ds)
                   in PHP_INT_MIN \<le> v \<and> v \<le> PHP_INT_MAX)))"

text \<open>
  \<^verbatim>\<open>htmlspecialchars($s, ENT_QUOTES, 'UTF-8')\<close>: the five characters are replaced by
  their entities; without \<^verbatim>\<open>ENT_SUBSTITUTE\<close> or \<^verbatim>\<open>ENT_IGNORE\<close> a subject that is not
  well-formed UTF-8 gives the empty string.
\<close>

definition utf8_trail :: "nat \<Rightarrow> bool" where
  "utf8_trail c = (128 \<le> c \<and> c \<le> 191)"

fun utf8_valid :: "nat list \<Rightarrow> bool" where
  "utf8_valid [] = True"
| "utf8_valid (c # cs) =
    (if c < 128 then utf8_valid cs
     else if c < 194 then False
     else if c < 224 then
       (case cs of
          c1 # r \<Rightarrow> utf8_trail c1 \<and> utf8_valid r
        | _ \<Rightarrow> False)
     else if c < 240 then
       (case cs of
          c1 # c2 # r \<Rightarrow>
            utf8_trail c1 \<and> utf8_trail c2 \<and>
            (let cp = (c mod 16) * 4096 + (c1 mod 64) * 64 + c2 mod 64
             in 2048 \<le> cp \<and> \<not> (55296 \<le> cp \<and> cp \<le> 57343)) \<and>
            utf8_valid r
        | _ \<Rightarrow> False)
     else if c < 245 then
       (case cs of
          c1 # c2 # c3 # r \<Rightarrow>
            utf8_trail c1 \<and> utf8_trail c2 \<and> utf8_trail c3 \<and>
            (let cp = (c mod 8) * 262144 + (c1 mod 64) * 4096 + (c2 mod 64) * 64 + c3 mod 64
             in 65536 \<le> cp \<and> cp \<le> 1114111) \<and>
            utf8_valid r
        | _ \<Rightarrow> False)
     else False)"

definition html_entity :: "char \<Rightarrow> string" where
  "html_entity c =
     (if c = CHR 0x26 then ''&amp;''
      else if c = CHR 0x22 then ''&quot;''
      else if c = CHR 0x27 then ''&#039;''
      else if c = CHR 0x3C then ''&lt;''
      else if c = CHR 0x3E then ''&gt;''
      else [c])"

definition htmlspecialchars :: "string \<Rightarrow> string" where
  "htmlspecialchars s =
     (if utf8_valid (map of_char s) then concat (map html_entity s) else [])"

text \<open>
  \<^verbatim>\<open>filter_var\<close> trims blanks, tabs, carriage returns, vertical tabs and line feeds on
  both sides before it validates.
\<close>

definition filter_blank :: "char \<Rightarrow> bool" where
  "filter_blank c = ((of_char c :: nat) \<in> set [32, 9, 13, 11, 10])"

definition filter_trim :: "string \<Rightarrow> string" where
  "filter_trim s = rev (dropWhile filter_blank (rev (dropWhile filter_blank s)))"

text \<open>
  \<^verbatim>\<open>filter_var($v, FILTER_VALIDATE_INT)\<close>: an optional sign, then \<open>0\<close> alone or digits
  that start with a nonzero one, within the 64-bit range; \<open>None\<close> stands for \<^verbatim>\<open>false\<close>.
  On a string that it accepts, the cast \<^verbatim>\<open>(int)$v\<close> yields the same number.
\<close>

definition filter_validate_int :: "string \<Rightarrow> int option" where
  "filter_validate_int s =
     (case filter_trim s of
        [] \<Rightarrow> None
      | c # cs \<Rightarrow>
          if c = CHR ''0'' then (if cs = [] then Some 0 else None)
          else
            (let neg = (c = CHR ''-'');
                 ds = (if c = CHR ''-'' \<or> c = CHR ''+'' then cs else c # cs)
             in if ds = ''0'' then Some 0
                else if ds = [] \<or> \<not> list_all is_digit ds \<or> hd ds = CHR ''0'' then None
                else
                  (let v = (if neg then - digits_value 0 ds else digits_value 0 ds)
                   in if PHP_INT_MIN \<le> v \<and> v \<le> PHP_INT_MAX then Some v else None)))"

text \<open>
  \<^verbatim>\<open>filter_var($v, FILTER_VALIDATE_BOOLEAN, FILTER_NULL_ON_FAILURE)\<close>; \<open>None\<close> stands
  for \<^verbatim>\<open>null\<close>.
\<close>

definition filter_validate_boolean :: "string \<Rightarrow> bool option" where
  "filter_validate_boolean s =
     (let t = strtolower (filter_trim s)
      in if t = ''1'' \<or> t = ''true'' \<or> t = ''on'' \<or> t = ''yes'' then Some True
         else if t = ''0'' \<or> t = ''false'' \<or> t = ''off'' \<or> t = ''no'' \<or> t = [] then Some False
         else None)"

text \<open>The cast \<^verbatim>\<open>(string)$n\<close> of an int.\<close>

fun nat_digits :: "nat \<Rightarrow> string" where
  "nat_digits n =
     (if n < 10 then [char_of (48 + n)] else nat_digits (n div 10) @ [char_of (48 + n mod 10)])"

declare nat_digits.simps [simp del]

definition strval :: "int \<Rightarrow> string" where
  "strval i = (if i < 0 then CHR ''-'' # nat_digits (nat (- i)) else nat_digits (nat i))"

subsection \<open>Data model\<close>

text \<open>
  A scalar of the decoded JSON: an int, a float, a string or a bool. A null is not a
  value: \<^verbatim>\<open>isset\<close> rejects it like an absent field.
\<close>

datatype jvalue = JInt int | JFloat rat | JStr string | JBool bool

text \<open>
  A match is one entry of the decoded JSON list: the team names and the date are strings
  when present, \<open>score\<close> is the nested array when there is one, with a scalar under
  \<open>home\<close>, \<open>away\<close> and any other field, and \<open>other\<close> holds the remaining top-level fields
  by their string value (a score that is not an array among them). \<open>None\<close> is a field
  that \<^verbatim>\<open>isset\<close> rejects.
\<close>

record football_match =
  home_team :: "string option"
  away_team :: "string option"
  score :: "(string \<times> jvalue) list option"
  date :: "string option"
  other :: "(string \<times> string) list"

text \<open>\<^verbatim>\<open>$match['score'][$f]\<close> when \<^verbatim>\<open>isset\<close>.\<close>

definition score_field :: "football_match \<Rightarrow> string \<Rightarrow> jvalue option" where
  "score_field m f = (case score m of None \<Rightarrow> None | Some sc \<Rightarrow> map_of sc f)"

text \<open>
  \<^verbatim>\<open>(string)$match[$key]\<close> when \<^verbatim>\<open>isset($match[$key])\<close>; the cast of the nested
  score array is the string \<^verbatim>\<open>Array\<close>.
\<close>

definition match_field :: "football_match \<Rightarrow> string \<Rightarrow> string option" where
  "match_field m key =
     (if key = ''home_team'' then home_team m
      else if key = ''away_team'' then away_team m
      else if key = ''date'' then date m
      else if key = ''score'' then
        (case score m of Some _ \<Rightarrow> Some ''Array'' | None \<Rightarrow> map_of (other m) key)
      else map_of (other m) key)"

text \<open>
  A value of the sanitized parameter array: the sanitizer stores an int or null under
  \<open>page\<close> and \<open>page_size\<close> and a string everywhere else.
\<close>

datatype pval = PInt int | PNull | PStr string

text \<open>
  The parameters of the model, all of them functions of the PHP runtime:
  \<^item> \<open>strtotime\<close> (\<open>None\<close> is \<^verbatim>\<open>false\<close>) and the instant that \<^verbatim>\<open>new \DateTime($s)\<close>
    denotes (\<open>None\<close> when the constructor throws), both read at one fixed clock;
  \<^item> \<open>is_numeric\<close>;
  \<^item> \<open>to_double\<close>, the double nearest to an exact result, and \<open>php_round\<close>, the function
    \<^verbatim>\<open>round($x, $places)\<close> on doubles;
  \<^item> the casts \<^verbatim>\<open>(int)$s\<close> and \<^verbatim>\<open>(float)$s\<close> of a string and the comparison
    \<^verbatim>\<open>$s > 0\<close> of a string with the int 0; the cast \<^verbatim>\<open>(int)$f\<close> of a float beyond
    the int range, and the cast \<^verbatim>\<open>(string)$f\<close> of a float;
  \<^item> \<open>sort_unordered\<close>, the result of \<^verbatim>\<open>usort\<close> for a callback that is not an order
    on the elements, which depends on the sorting algorithm of the PHP version.
\<close>

record php_env =
  strtotime :: "string \<Rightarrow> int option"
  DateTime :: "string \<Rightarrow> int option"
  is_numeric :: "string \<Rightarrow> bool"
  to_double :: "rat \<Rightarrow> rat"
  php_round :: "nat \<Rightarrow> rat \<Rightarrow> rat"
  str_to_int :: "string \<Rightarrow> int"
  str_to_float :: "string \<Rightarrow> rat"
  str_positive :: "string \<Rightarrow> bool"
  float_to_int :: "rat \<Rightarrow> int"
  float_to_str :: "rat \<Rightarrow> string"
  sort_unordered ::
    "(football_match \<Rightarrow> football_match \<Rightarrow> int) \<Rightarrow> football_match list \<Rightarrow> football_match list"

subsection \<open>Conversions and float arithmetic\<close>

text \<open>The cast \<^verbatim>\<open>(int)$v\<close>; a float is truncated toward zero.\<close>

definition to_int :: "php_env \<Rightarrow> jvalue \<Rightarrow> int" where
  "to_int env v =
     (case v of
        JInt n \<Rightarrow> n
      | JFloat f \<Rightarrow>
          (let t = (if 0 \<le> f then \<lfloor>f\<rfloor> else \<lceil>f\<rceil>)
           in if PHP_INT_MIN \<le> t \<and> t \<le> PHP_INT_MAX then t else float_to_int env f)
      | JStr s \<Rightarrow> str_to_int env s
      | JBool b \<Rightarrow> (if b then 1 else 0))"

text \<open>
  The comparison \<^verbatim>\<open>$v > 0\<close> of a decoded value with the int 0, without a cast: a bool
  is compared as a bool, a string by the rules for strings.
\<close>

definition positive :: "php_env \<Rightarrow> jvalue \<Rightarrow> bool" where
  "positive env v =
     (case v of
        JInt n \<Rightarrow> 0 < n
      | JFloat f \<Rightarrow> 0 < f
      | JStr s \<Rightarrow> str_positive env s
      | JBool b \<Rightarrow> b)"

text \<open>The casts \<^verbatim>\<open>(float)$v\<close> and \<^verbatim>\<open>(string)$v\<close>.\<close>

definition to_float :: "php_env \<Rightarrow> jvalue \<Rightarrow> rat" where
  "to_float env v =
     (case v of
        JInt n \<Rightarrow> to_double env (of_int n)
      | JFloat f \<Rightarrow> f
      | JStr s \<Rightarrow> str_to_float env s
      | JBool b \<Rightarrow> (if b then 1 else 0))"

definition to_string :: "php_env \<Rightarrow> jvalue \<Rightarrow> string" where
  "to_string env v =
     (case v of
        JInt n \<Rightarrow> strval n
      | JFloat f \<Rightarrow> float_to_str env f
      | JStr s \<Rightarrow> s
      | JBool b \<Rightarrow> (if b then ''1'' else []))"

text \<open>
  The quotient \<^verbatim>\<open>$a / $b\<close> of two ints, taken in doubles, and the product
  \<^verbatim>\<open>$x * 100\<close>: each operation rounds its exact result to the nearest double.
\<close>

definition int_div :: "php_env \<Rightarrow> int \<Rightarrow> int \<Rightarrow> rat" where
  "int_div env a b = to_double env (to_double env (of_int a) / to_double env (of_int b))"

definition times_100 :: "php_env \<Rightarrow> rat \<Rightarrow> rat" where
  "times_100 env x = to_double env (x * to_double env 100)"

subsection \<open>Statistics\<close>

text \<open>
  \<open>score_valid\<close> is the test of the code for a usable score:
  \<^verbatim>\<open>isset($match['score']['home']) && isset($match['score']['away'])\<close>.
\<close>

definition score_valid :: "football_match \<Rightarrow> bool" where
  "score_valid m = (score_field m ''home'' \<noteq> None \<and> score_field m ''away'' \<noteq> None)"

text \<open>\<^verbatim>\<open>(int)$match['score']['home']\<close> when set, and 0 where the code puts 0 instead.\<close>

definition home_score :: "php_env \<Rightarrow> football_match \<Rightarrow> int" where
  "home_score env m = (case score_field m ''home'' of Some h \<Rightarrow> to_int env h | None \<Rightarrow> 0)"

definition away_score :: "php_env \<Rightarrow> football_match \<Rightarrow> int" where
  "away_score env m = (case score_field m ''away'' of Some a \<Rightarrow> to_int env a | None \<Rightarrow> 0)"

text \<open>
  Line 70 compares the decoded values themselves with 0, with no cast:
  \<^verbatim>\<open>$match['score']['home'] > 0 && $match['score']['away'] > 0\<close>.
\<close>

definition calculateBothTeamsScoredPercentage :: "php_env \<Rightarrow> football_match list \<Rightarrow> rat" where
  "calculateBothTeamsScoredPercentage env ms =
     (let matchCount = length ms
      in if matchCount = 0 then 0
         else
           (let bothTeamsScoredCount =
                  foldl (\<lambda>cnt m.
                           case (score_field m ''home'', score_field m ''away'') of
                             (Some h, Some a) \<Rightarrow>
                               cnt + (if positive env h \<and> positive env a then 1 else 0)
                           | _ \<Rightarrow> cnt)
                        (0 :: int) ms
            in php_round env 2
                 (times_100 env (int_div env bothTeamsScoredCount (int matchCount)))))"

record average_goals =
  average_total_goals :: rat
  average_home_goals :: rat
  average_away_goals :: rat

definition calculateAverageGoals :: "php_env \<Rightarrow> football_match list \<Rightarrow> average_goals" where
  "calculateAverageGoals env ms =
     (if ms = [] then
        \<lparr>average_total_goals = 0, average_home_goals = 0, average_away_goals = 0\<rparr>
      else
        (let totalMatches = int (length ms);
             goals = foldl (\<lambda>(t, h, a) m.
                              (t + home_score env m + away_score env m,
                               h + home_score env m,
                               a + away_score env m))
                           (0 :: int, 0 :: int, 0 :: int) ms
         in case goals of (t, h, a) \<Rightarrow>
              \<lparr>average_total_goals = php_round env 2 (int_div env t totalMatches),
               average_home_goals = php_round env 2 (int_div env h totalMatches),
               average_away_goals = php_round env 2 (int_div env a totalMatches)\<rparr>))"

definition involves :: "string \<Rightarrow> football_match \<Rightarrow> bool" where
  "involves team m =
     ((case home_team m of Some h \<Rightarrow> strcasecmp h team = 0 | None \<Rightarrow> False) \<or>
      (case away_team m of Some a \<Rightarrow> strcasecmp a team = 0 | None \<Rightarrow> False))"

definition form_points :: "php_env \<Rightarrow> string \<Rightarrow> int \<Rightarrow> football_match \<Rightarrow> int" where
  "form_points env team pts m =
     (case (home_team m, away_team m) of
        (Some h, Some a) \<Rightarrow>
          if \<not> score_valid m then pts
          else
            (let isHomeTeam = (strcasecmp h team = 0);
                 homeScore = home_score env m;
                 awayScore = away_score env m
             in if isHomeTeam then
                  (if homeScore > awayScore then pts + 3
                   else if homeScore = awayScore then pts + 1 else pts)
                else
                  (if awayScore > homeScore then pts + 3
                   else if homeScore = awayScore then pts + 1 else pts))
      | _ \<Rightarrow> pts)"

definition calculateFormIndex :: "php_env \<Rightarrow> football_match list \<Rightarrow> string \<Rightarrow> nat \<Rightarrow> rat" where
  "calculateFormIndex env ms team recentGames =
     (if php_empty team then 0
      else
        (let teamMatches = filter (involves team) ms
         in if teamMatches = [] then 0
            else
              (let recentMatches = take (min (length teamMatches) recentGames) teamMatches;
                   points = foldl (form_points env team) 0 recentMatches;
                   maxPossiblePoints = int (length recentMatches) * 3
               in if maxPossiblePoints > 0
                  then php_round env 2 (times_100 env (int_div env points maxPossiblePoints))
                  else 0)))"

record head_to_head_stats =
  home_wins :: int
  away_wins :: int
  draws :: int
  home_win_percentage :: rat
  away_win_percentage :: rat
  draw_percentage :: rat

text \<open>The tally of both \<^verbatim>\<open>array_reduce\<close> calls that count wins and draws.\<close>

definition tally :: "php_env \<Rightarrow> int \<times> int \<times> int \<Rightarrow> football_match \<Rightarrow> int \<times> int \<times> int" where
  "tally env acc m =
     (case acc of (hw, aw, d) \<Rightarrow>
        if home_score env m > away_score env m then (hw + 1, aw, d)
        else if home_score env m < away_score env m then (hw, aw + 1, d)
        else (hw, aw, d + 1))"

definition calculateHeadToHeadStats :: "php_env \<Rightarrow> football_match list \<Rightarrow> head_to_head_stats" where
  "calculateHeadToHeadStats env ms =
     (let zero = \<lparr>home_wins = 0, away_wins = 0, draws = 0, home_win_percentage = 0,
                  away_win_percentage = 0, draw_percentage = 0\<rparr>
      in if ms = [] then zero
         else
           (let validMatches = filter score_valid ms;
                totalMatches = int (length validMatches)
            in if totalMatches = 0 then zero
               else
                 (case foldl (tally env) (0, 0, 0) validMatches of (hw, aw, d) \<Rightarrow>
                    \<lparr>home_wins = hw, away_wins = aw, draws = d,
                     home_win_percentage =
                       php_round env 2 (times_100 env (int_div env hw totalMatches)),
                     away_win_percentage =
                       php_round env 2 (times_100 env (int_div env aw totalMatches)),
                     draw_percentage =
                       php_round env 2 (times_100 env (int_div env d totalMatches))\<rparr>)))"

definition calculateExpectedGoals :: "php_env \<Rightarrow> string \<Rightarrow> football_match list \<Rightarrow> rat" where
  "calculateExpectedGoals env team ms =
     (if php_empty team \<or> ms = [] then 0
      else
        (let teamMatches = filter (involves team) ms
         in if teamMatches = [] then 0
            else
              (let validMatches = filter score_valid teamMatches
               in if validMatches = [] then 0
                  else
                    (let totalGoals =
                           foldl (\<lambda>acc m.
                                    let isHomeTeam =
                                      (strcasecmp (case home_team m of Some h \<Rightarrow> h | None \<Rightarrow> []) team = 0);
                                        goals =
                                      (case score_field m (if isHomeTeam then ''home'' else ''away'') of
                                         Some v \<Rightarrow> to_float env v
                                       | None \<Rightarrow> 0)
                                    in to_double env (acc + goals))
                                 (0 :: rat) validMatches
                     in php_round env 2
                          (to_double env
                             (totalGoals / to_double env (of_nat (length validMatches))))))))"

text \<open>Line 412 casts before it compares: \<^verbatim>\<open>(int)$match['score']['home'] > 0\<close>.\<close>

definition calculateBothTeamsToScoreProb :: "php_env \<Rightarrow> football_match list \<Rightarrow> rat" where
  "calculateBothTeamsToScoreProb env ms =
     (if ms = [] then 0
      else
        (let validMatches = filter score_valid ms
         in if validMatches = [] then 0
            else
              (let bothScoredCount =
                     length (filter (\<lambda>m. home_score env m > 0 \<and> away_score env m > 0) validMatches)
               in php_round env 2
                    (times_100 env
                       (int_div env (int bothScoredCount) (int (length validMatches)))))))"

subsection \<open>Prediction\<close>

record winner_prediction =
  winner :: string
  confidence :: rat

text \<open>The head-to-head subset of \<^verbatim>\<open>predictWinner\<close>: exact orientation only.\<close>

definition h2hMatches :: "string \<Rightarrow> string \<Rightarrow> football_match list \<Rightarrow> football_match list" where
  "h2hMatches homeTeam awayTeam ms =
     filter (\<lambda>m. case (home_team m, away_team m) of
                   (Some h, Some a) \<Rightarrow> strcasecmp h homeTeam = 0 \<and> strcasecmp a awayTeam = 0
                 | _ \<Rightarrow> False) ms"

definition predictWinner ::
  "php_env \<Rightarrow> string \<Rightarrow> string \<Rightarrow> football_match list \<Rightarrow> winner_prediction" where
  "predictWinner env homeTeam awayTeam ms =
     (if php_empty homeTeam \<or> php_empty awayTeam \<or> ms = []
      then \<lparr>winner = ''unknown'', confidence = 0\<rparr>
      else
        (let validMatches = filter score_valid (h2hMatches homeTeam awayTeam ms)
         in if validMatches = [] then \<lparr>winner = ''unknown'', confidence = 0\<rparr>
            else
              (case foldl (tally env) (0, 0, 0) validMatches of (hw, aw, d) \<Rightarrow>
                 (let totalMatches = int (length validMatches)
                  in if hw > aw \<and> hw > d
                     then \<lparr>winner = ''home'',
                           confidence = php_round env 2 (int_div env hw totalMatches)\<rparr>
                     else if aw > hw \<and> aw > d
                     then \<lparr>winner = ''away'',
                           confidence = php_round env 2 (int_div env aw totalMatches)\<rparr>
                     else \<lparr>winner = ''draw'',
                           confidence = php_round env 2 (int_div env d totalMatches)\<rparr>))))"

definition calculateWinProbability :: "php_env \<Rightarrow> winner_prediction \<Rightarrow> string \<Rightarrow> rat" where
  "calculateWinProbability env winnerPrediction outcomeType =
     (if winner winnerPrediction = ''unknown'' then php_round env 2 (int_div env 1 3)
      else if winner winnerPrediction = outcomeType then confidence winnerPrediction
      else
        (let remainingProb = to_double env (to_double env 1 - confidence winnerPrediction);
             nonPredictedOutcomes = 2
         in php_round env 2
              (to_double env (remainingProb / to_double env nonPredictedOutcomes))))"

record model_predictions =
  randomForest :: string
  poisson_homeGoals :: rat
  poisson_awayGoals :: rat
  elo_homeWinProb :: rat
  elo_drawProb :: rat
  elo_awayWinProb :: rat

record prediction =
  homeExpectedGoals :: rat
  awayExpectedGoals :: rat
  bothTeamsToScoreProb :: rat
  predictedWinner :: string
  prediction_confidence :: rat
  modelPredictions :: model_predictions

definition runPrediction ::
  "php_env \<Rightarrow> string \<Rightarrow> string \<Rightarrow> football_match list \<Rightarrow> prediction" where
  "runPrediction env homeTeam awayTeam ms =
     (let hxg = calculateExpectedGoals env homeTeam ms;
          axg = calculateExpectedGoals env awayTeam ms;
          btts = calculateBothTeamsToScoreProb env ms;
          winnerPrediction = predictWinner env homeTeam awayTeam ms
      in \<lparr>homeExpectedGoals = hxg,
          awayExpectedGoals = axg,
          bothTeamsToScoreProb = btts,
          predictedWinner = winner winnerPrediction,
          prediction_confidence = confidence winnerPrediction,
          modelPredictions =
            \<lparr>randomForest =
               (if winner winnerPrediction = ''unknown'' then ''insufficient_data''
                else winner winnerPrediction @ ''_win''),
             poisson_homeGoals = php_round env 0 hxg,
             poisson_awayGoals = php_round env 0 axg,
             elo_homeWinProb = calculateWinProbability env winnerPrediction ''home'',
             elo_drawProb = calculateWinProbability env winnerPrediction ''draw'',
             elo_awayWinProb = calculateWinProbability env winnerPrediction ''away''\<rparr>\<rparr>)"

subsection \<open>Filtering\<close>

definition matchesTeam :: "football_match \<Rightarrow> string \<Rightarrow> bool" where
  "matchesTeam m v =
     (case (home_team m, away_team m) of
        (Some h, Some a) \<Rightarrow> strcasecmp h v = 0 \<or> strcasecmp a v = 0
      | _ \<Rightarrow> False)"

definition matchesHomeTeam :: "football_match \<Rightarrow> string \<Rightarrow> bool" where
  "matchesHomeTeam m v = (case home_team m of Some h \<Rightarrow> strcasecmp h v = 0 | None \<Rightarrow> False)"

definition matchesAwayTeam :: "football_match \<Rightarrow> string \<Rightarrow> bool" where
  "matchesAwayTeam m v = (case away_team m of Some a \<Rightarrow> strcasecmp a v = 0 | None \<Rightarrow> False)"

definition matchesDate :: "php_env \<Rightarrow> football_match \<Rightarrow> string \<Rightarrow> bool" where
  "matchesDate env m v =
     (case date m of
        None \<Rightarrow> False
      | Some d \<Rightarrow>
          (case DateTime env d of
             None \<Rightarrow> False
           | Some matchDate \<Rightarrow>
               (case DateTime env v of
                  None \<Rightarrow> False
                | Some paramDate \<Rightarrow> matchDate \<ge> paramDate)))"

definition matchesScore :: "php_env \<Rightarrow> football_match \<Rightarrow> string \<Rightarrow> string \<Rightarrow> bool" where
  "matchesScore env m key v =
     (let scoreType = str_remove ''score_'' key
      in case score_field m scoreType of
           None \<Rightarrow> False
         | Some x \<Rightarrow> to_string env x = v)"

definition matchesBothTeamsScored :: "php_env \<Rightarrow> football_match \<Rightarrow> string \<Rightarrow> bool" where
  "matchesBothTeamsScored env m v =
     (if \<not> score_valid m then False
      else
        (let bothScored = (home_score env m > 0 \<and> away_score env m > 0)
         in case filter_validate_boolean v of
              None \<Rightarrow> False
            | Some expected \<Rightarrow> bothScored = expected))"

definition matchesDefault :: "football_match \<Rightarrow> string \<Rightarrow> string \<Rightarrow> bool" where
  "matchesDefault m key v =
     (case match_field m key of Some f \<Rightarrow> strcasecmp f v = 0 | None \<Rightarrow> False)"

text \<open>
  The label \<^verbatim>\<open>case (str_starts_with($key, 'score_'))\<close> of both switches is compared
  loosely with the key: it is taken when the truth value of the key equals the result of
  the prefix test.
\<close>

definition score_case :: "string \<Rightarrow> bool" where
  "score_case key = ((\<not> php_empty key) = str_starts_with key ''score_'')"

text \<open>
  \<^verbatim>\<open>matchParameter(array $match, string $key, string $value)\<close> is called from a file
  with strict types: an int key or a value that is not a string raises \<^verbatim>\<open>TypeError\<close>.
\<close>

definition matchParameter :: "php_env \<Rightarrow> football_match \<Rightarrow> string \<Rightarrow> pval \<Rightarrow> php_error + bool" where
  "matchParameter env m key val =
     (if is_int_key key then Inl TypeError
      else
        (case val of
           PStr v \<Rightarrow>
             Inr (if key = ''team'' then matchesTeam m v
                  else if key = ''home_team'' then matchesHomeTeam m v
                  else if key = ''away_team'' then matchesAwayTeam m v
                  else if key = ''date'' then matchesDate env m v
                  else if score_case key then matchesScore env m key v
                  else if key = ''both_teams_scored'' then matchesBothTeamsScored env m v
                  else matchesDefault m key v)
         | _ \<Rightarrow> Inl TypeError))"

text \<open>The callback of \<^verbatim>\<open>array_filter\<close>: the loop stops at the first key that fails.\<close>

fun matchAll :: "php_env \<Rightarrow> football_match \<Rightarrow> (string \<times> pval) list \<Rightarrow> php_error + bool" where
  "matchAll env m [] = Inr True"
| "matchAll env m ((key, val) # ps) =
     (case matchParameter env m key val of
        Inl e \<Rightarrow> Inl e
      | Inr False \<Rightarrow> Inr False
      | Inr True \<Rightarrow> matchAll env m ps)"

text \<open>\<^verbatim>\<open>array_filter\<close> with a callback that may throw.\<close>

fun array_filter :: "('a \<Rightarrow> php_error + bool) \<Rightarrow> 'a list \<Rightarrow> php_error + 'a list" where
  "array_filter f [] = Inr []"
| "array_filter f (x # xs) =
     (case f x of
        Inl e \<Rightarrow> Inl e
      | Inr keep \<Rightarrow>
          (case array_filter f xs of
             Inl e \<Rightarrow> Inl e
           | Inr ys \<Rightarrow> Inr (if keep then x # ys else ys)))"

definition filterMatches ::
  "php_env \<Rightarrow> football_match list \<Rightarrow> (string \<times> pval) list \<Rightarrow> php_error + football_match list" where
  "filterMatches env ms params =
     (if params = [] then Inr ms
      else array_filter (\<lambda>m. matchAll env m params) ms)"

subsection \<open>Sanitizing the request parameters\<close>

text \<open>
  The raw parameters are the entries of \<^verbatim>\<open>$_GET\<close> in order, strings under string
  keys. An assignment \<^verbatim>\<open>$sanitizedParams[$key] = v\<close> overwrites in place or appends.
\<close>

definition sanitizeParam ::
  "php_env \<Rightarrow> string \<Rightarrow> string \<Rightarrow> (string \<times> pval) list \<Rightarrow> php_error + (string \<times> pval) list" where
  "sanitizeParam env key v acc =
     (if v = [] then Inr acc
      else if is_int_key key then Inl TypeError
      else if key = ''page'' \<or> key = ''page_size'' then
        Inr (AList.update key
               (case filter_validate_int v of Some n \<Rightarrow> PInt n | None \<Rightarrow> PNull) acc)
      else if key = ''date'' then
        (case DateTime env v of
           Some _ \<Rightarrow> Inr (AList.update key (PStr (htmlspecialchars v)) acc)
         | None \<Rightarrow> Inr acc)
      else if key = ''both_teams_scored'' then
        (if strtolower v \<in> set [''true'', ''false'', ''1'', ''0'']
         then Inr (AList.update key (PStr (strtolower v)) acc)
         else Inr acc)
      else if score_case key then
        (if is_numeric env v
         then Inr (AList.update key (PStr (htmlspecialchars v)) acc)
         else Inr acc)
      else Inr (AList.update key (PStr (htmlspecialchars v)) acc))"

fun sanitizeLoop ::
  "php_env \<Rightarrow> (string \<times> string) list \<Rightarrow> (string \<times> pval) list \<Rightarrow> php_error + (string \<times> pval) list" where
  "sanitizeLoop env [] acc = Inr acc"
| "sanitizeLoop env ((key, v) # rest) acc =
     (case sanitizeParam env key v acc of
        Inl e \<Rightarrow> Inl e
      | Inr acc' \<Rightarrow> sanitizeLoop env rest acc')"

definition validateAndSanitizeParams ::
  "php_env \<Rightarrow> (string \<times> string) list \<Rightarrow> php_error + (string \<times> pval) list" where
  "validateAndSanitizeParams env params = sanitizeLoop env params []"

subsection \<open>Sorting by date\<close>

text \<open>
  The value that the sort callback computes for a match: \<^verbatim>\<open>strtotime\<close> of the date,
  which is an int or \<^verbatim>\<open>false\<close>, and the int 0 when the date is not set.
\<close>

datatype stamp = TInt int | TFalse

definition dateValue :: "php_env \<Rightarrow> football_match \<Rightarrow> stamp" where
  "dateValue env m =
     (case date m of
        None \<Rightarrow> TInt 0
      | Some d \<Rightarrow> (case strtotime env d of Some t \<Rightarrow> TInt t | None \<Rightarrow> TFalse))"

text \<open>
  PHP 8's \<^verbatim>\<open><=>\<close> on these values: two ints compare as numbers; when one side is
  \<^verbatim>\<open>false\<close> both sides are converted to bool, and \<^verbatim>\<open>false < true\<close>.
\<close>

fun spaceship :: "stamp \<Rightarrow> stamp \<Rightarrow> int" where
  "spaceship (TInt a) (TInt b) = (if a < b then - 1 else if a = b then 0 else 1)"
| "spaceship TFalse TFalse = 0"
| "spaceship TFalse (TInt b) = (if b = 0 then 0 else - 1)"
| "spaceship (TInt a) TFalse = (if a = 0 then 0 else 1)"

definition dateDescending :: "php_env \<Rightarrow> football_match \<Rightarrow> football_match \<Rightarrow> int" where
  "dateDescending env a b = spaceship (dateValue env b) (dateValue env a)"

text \<open>
  A callback is an order on the elements of a list when its sign turns with its
  arguments and \<open>cmp a b \<le> 0\<close> is transitive. The date callback is not always one:
  \<^verbatim>\<open>false\<close> equals 0, 0 is above a negative time, and a negative time is above
  \<^verbatim>\<open>false\<close>.
\<close>

definition consistent :: "('a \<Rightarrow> 'a \<Rightarrow> int) \<Rightarrow> 'a list \<Rightarrow> bool" where
  "consistent cmp xs =
     list_all (\<lambda>a. list_all (\<lambda>b.
         ((cmp a b < 0) = (0 < cmp b a)) \<and>
         list_all (\<lambda>c. if cmp a b \<le> 0 \<and> cmp b c \<le> 0 then cmp a c \<le> 0 else True) xs)
       xs) xs"

text \<open>
  \<^verbatim>\<open>usort\<close> is a stable sort since PHP 8.0. For a callback that is an order on the
  elements, the outcome of a stable sort does not depend on the algorithm, and it is
  computed here by insertion: an element is placed before the first element that the
  callback does not put before it. For any other callback the outcome is that of the
  algorithm of the PHP version, \<open>sort_unordered\<close>.
\<close>

fun usort_insert :: "('a \<Rightarrow> 'a \<Rightarrow> int) \<Rightarrow> 'a \<Rightarrow> 'a list \<Rightarrow> 'a list" where
  "usort_insert cmp x [] = [x]"
| "usort_insert cmp x (y # ys) =
     (if cmp x y \<le> 0 then x # y # ys else y # usort_insert cmp x ys)"

definition stable_sort :: "('a \<Rightarrow> 'a \<Rightarrow> int) \<Rightarrow> 'a list \<Rightarrow> 'a list" where
  "stable_sort cmp xs = foldr (usort_insert cmp) xs []"

definition usort ::
  "php_env \<Rightarrow> (football_match \<Rightarrow> football_match \<Rightarrow> int) \<Rightarrow> football_match list \<Rightarrow>
     football_match list" where
  "usort env cmp xs =
     (if consistent cmp xs then stable_sort cmp xs else sort_unordered env cmp xs)"

definition sortByDate :: "php_env \<Rightarrow> football_match list \<Rightarrow> football_match list" where
  "sortByDate env ms = usort env (dateDescending env) ms"

subsection \<open>The request\<close>

definition getAvailableTeams :: "football_match list \<Rightarrow> string list" where
  "getAvailableTeams ms =
     (let teams =
            foldl (\<lambda>acc m.
                     (let acc1 = (case home_team m of
                                    Some h \<Rightarrow> if php_empty h then acc else acc @ [h]
                                  | None \<Rightarrow> acc)
                      in case away_team m of
                           Some a \<Rightarrow> if php_empty a then acc1 else acc1 @ [a]
                         | None \<Rightarrow> acc1))
                  [] ms;
          uniqueTeams =
            foldl (\<lambda>u team.
                     (let lowerTeam = strtolower team
                      in if map_of u lowerTeam = None then u @ [(lowerTeam, team)] else u))
                  [] teams
      in map snd uniqueTeams)"

record team_analysis =
  analysis_home_team :: string
  analysis_away_team :: string
  matches_count :: nat
  both_teams_scored_percentage :: rat
  analysis_average_goals :: average_goals
  home_form_index :: rat
  away_form_index :: rat
  analysis_head_to_head_stats :: head_to_head_stats

record response =
  total_matches :: nat
  page :: int
  page_size :: int
  matches :: "football_match list"
  team_analysis :: "team_analysis option"
  prediction :: "prediction option"
  teams :: "string list"

definition DEFAULT_PAGE_SIZE :: int where
  "DEFAULT_PAGE_SIZE = 100"

definition MAX_PAGE_SIZE :: int where
  "MAX_PAGE_SIZE = 500"

text \<open>
  \<^verbatim>\<open>(int)$params[$key]\<close> under \<open>page\<close> and \<open>page_size\<close>: the sanitizer stores an int
  or null there; a string, which it never stores, counts as the integer it validates to.
\<close>

definition intParam :: "pval \<Rightarrow> int" where
  "intParam v =
     (case v of
        PInt n \<Rightarrow> n
      | PNull \<Rightarrow> 0
      | PStr s \<Rightarrow> (case filter_validate_int s of Some n \<Rightarrow> n | None \<Rightarrow> 0))"

text \<open>
  The two pagination values; \<^verbatim>\<open>isset($params[$key])\<close> holds when the key is there and
  its value is not null.
\<close>

definition pageOf :: "(string \<times> pval) list \<Rightarrow> int" where
  "pageOf params =
     (case map_of params ''page'' of
        None \<Rightarrow> 1
      | Some PNull \<Rightarrow> 1
      | Some v \<Rightarrow> max 1 (intParam v))"

definition pageSizeOf :: "(string \<times> pval) list \<Rightarrow> int" where
  "pageSizeOf params =
     (case map_of params ''page_size'' of
        None \<Rightarrow> DEFAULT_PAGE_SIZE
      | Some PNull \<Rightarrow> DEFAULT_PAGE_SIZE
      | Some v \<Rightarrow> min (max 1 (intParam v)) MAX_PAGE_SIZE)"

text \<open>\<^verbatim>\<open>$params[$key] ?? ''\<close> for the two team names, which the sanitizer stores as strings.\<close>

definition teamParam :: "(string \<times> pval) list \<Rightarrow> string \<Rightarrow> string" where
  "teamParam params key = (case map_of params key of Some (PStr s) \<Rightarrow> s | _ \<Rightarrow> [])"

text \<open>The matches of \<^verbatim>\<open>team_analysis\<close>: the requested pair in either orientation.\<close>

definition teamAnalysisMatches ::
  "string \<Rightarrow> string \<Rightarrow> football_match list \<Rightarrow> football_match list" where
  "teamAnalysisMatches homeTeam awayTeam ms =
     filter (\<lambda>m. case (home_team m, away_team m) of
                   (Some h, Some a) \<Rightarrow>
                     (strcasecmp h homeTeam = 0 \<and> strcasecmp a awayTeam = 0) \<or>
                     (strcasecmp h awayTeam = 0 \<and> strcasecmp a homeTeam = 0)
                 | _ \<Rightarrow> False) ms"

definition teamAnalysis ::
  "php_env \<Rightarrow> string \<Rightarrow> string \<Rightarrow> football_match list \<Rightarrow> team_analysis" where
  "teamAnalysis env homeTeam awayTeam filteredMatches =
     (let tam = teamAnalysisMatches homeTeam awayTeam filteredMatches
      in \<lparr>analysis_home_team = homeTeam,
          analysis_away_team = awayTeam,
          matches_count = length tam,
          both_teams_scored_percentage = calculateBothTeamsScoredPercentage env tam,
          analysis_average_goals = calculateAverageGoals env tam,
          home_form_index = calculateFormIndex env filteredMatches homeTeam 5,
          away_form_index = calculateFormIndex env filteredMatches awayTeam 5,
          analysis_head_to_head_stats = calculateHeadToHeadStats env tam\<rparr>)"

text \<open>
  \<^verbatim>\<open>processRequest\<close>, with the loaded matches and \<^verbatim>\<open>$_GET\<close> as arguments. A product
  \<^verbatim>\<open>($page - 1) * $pageSize\<close> beyond the int range is a float, which
  \<^verbatim>\<open>array_slice\<close> refuses under strict types.
\<close>

definition processRequest ::
  "php_env \<Rightarrow> football_match list \<Rightarrow> (string \<times> string) list \<Rightarrow> php_error + response" where
  "processRequest env all_matches get =
     (case validateAndSanitizeParams env get of
        Inl e \<Rightarrow> Inl e
      | Inr params \<Rightarrow>
          (case filterMatches env all_matches params of
             Inl e \<Rightarrow> Inl e
           | Inr filtered \<Rightarrow>
               (let filteredMatches = sortByDate env filtered;
                    pg = pageOf params;
                    pageSize = pageSizeOf params;
                    totalMatches = length filteredMatches;
                    offset = (pg - 1) * pageSize
                in if offset > PHP_INT_MAX then Inl TypeError
                   else
                     (let paginatedMatches = take (nat pageSize) (drop (nat offset) filteredMatches);
                          homeTeam = teamParam params ''home_team'';
                          awayTeam = teamParam params ''away_team'';
                          both = (\<not> php_empty homeTeam \<and> \<not> php_empty awayTeam)
                      in Inr \<lparr>total_matches = totalMatches,
                              page = pg,
                              page_size = pageSize,
                              matches = paginatedMatches,
                              team_analysis =
                                (if both then Some (teamAnalysis env homeTeam awayTeam filteredMatches)
                                 else None),
                              prediction =
                                (if both then Some (runPrediction env homeTeam awayTeam filteredMatches)
                                 else None),
                              teams = getAvailableTeams all_matches\<rparr>))))"

subsection \<open>An environment for evaluation\<close>

text \<open>
  An environment in which the examples can be computed. Dates written
  \<^verbatim>\<open>YYYY-MM-DD\<close> denote midnight UTC of that day, in seconds since the epoch, and
  every other string is rejected as a date. Arithmetic is exact and \<open>round\<close> is the
  decimal rounding half away from zero. A string of one to eighteen decimal digits is
  the number it writes; any other string is taken as text without a numeric prefix,
  which casts to 0 and compares with 0 as a string with \<^verbatim>\<open>"0"\<close>. The remaining
  conversions and \<open>sort_unordered\<close> do not occur in the examples; they are given the
  values 0 and the empty string, and the insertion sort.
\<close>

definition days_from_civil :: "int \<Rightarrow> int \<Rightarrow> int \<Rightarrow> int" where
  "days_from_civil y m d =
     (let y1 = (if m \<le> 2 then y - 1 else y);
          era = y1 div 400;
          yoe = y1 - era * 400;
          doy = (153 * (if m > 2 then m - 3 else m + 9) + 2) div 5 + d - 1;
          doe = yoe * 365 + yoe div 4 - yoe div 100 + doy
      in era * 146097 + doe - 719468)"

definition iso_date :: "string \<Rightarrow> int option" where
  "iso_date s =
     (if length s = 10 \<and> s ! 4 = CHR ''-'' \<and> s ! 7 = CHR ''-'' \<and>
         list_all is_digit (take 4 s) \<and> list_all is_digit (take 2 (drop 5 s)) \<and>
         list_all is_digit (drop 8 s)
      then
        (let y = digits_value 0 (take 4 s);
             m = digits_value 0 (take 2 (drop 5 s));
             d = digits_value 0 (drop 8 s)
         in if 1 \<le> m \<and> m \<le> 12 \<and> 1 \<le> d \<and> d \<le> 31
            then Some (days_from_civil y m d * 86400) else None)
      else None)"

definition round_half_away :: "rat \<Rightarrow> int" where
  "round_half_away x = (if 0 \<le> x then \<lfloor>x + 1 / 2\<rfloor> else - \<lfloor>- x + 1 / 2\<rfloor>)"

definition round_places :: "nat \<Rightarrow> rat \<Rightarrow> rat" where
  "round_places n x = of_int (round_half_away (x * 10 ^ n)) / 10 ^ n"

definition short_number :: "string \<Rightarrow> bool" where
  "short_number s = (s \<noteq> [] \<and> length s \<le> 18 \<and> list_all is_digit s)"

fun bytes_less :: "string \<Rightarrow> string \<Rightarrow> bool" where
  "bytes_less [] [] = False"
| "bytes_less [] (y # ys) = True"
| "bytes_less (x # xs) [] = False"
| "bytes_less (x # xs) (y # ys) =
     (if x = y then bytes_less xs ys else (of_char x :: nat) < of_char y)"

definition iso_env :: php_env where
  "iso_env =
     \<lparr>strtotime = iso_date,
      DateTime = iso_date,
      is_numeric = short_number,
      to_double = (\<lambda>x. x),
      php_round = round_places,
      str_to_int = (\<lambda>s. if short_number s then digits_value 0 s else 0),
      str_to_float = (\<lambda>s. if short_number s then of_int (digits_value 0 s) else 0),
      str_positive = (\<lambda>s. if short_number s then 0 < digits_value 0 s else bytes_less ''0'' s),
      float_to_int = (\<lambda>f. 0),
      float_to_str = (\<lambda>f. []),
      sort_unordered = stable_sort\<rparr>"

subsection \<open>Predicates and data used in the statements\<close>

text \<open>
  What the statements ask of the arithmetic of the runtime: rounding to a double and
  \<^verbatim>\<open>round\<close> to two places are monotone and leave 0 and 1 as they are.
\<close>

definition arithmetic_sound :: "php_env \<Rightarrow> bool" where
  "arithmetic_sound env =
     ((\<forall>x y. x \<le> y \<longrightarrow> to_double env x \<le> to_double env y) \<and>
      to_double env 0 = 0 \<and> to_double env 1 = 1 \<and>
      (\<forall>x y. x \<le> y \<longrightarrow> php_round env 2 x \<le> php_round env 2 y) \<and>
      php_round env 2 0 = 0 \<and> php_round env 2 1 = 1)"

text \<open>
  A match whose score has a value under \<open>home\<close> and under \<open>away\<close>, whatever the
  values are.
\<close>

definition both_set :: "football_match \<Rightarrow> bool" where
  "both_set m =
     (case score m of
        None \<Rightarrow> False
      | Some sc \<Rightarrow> map_of sc ''home'' \<noteq> None \<and> map_of sc ''away'' \<noteq> None)"





text \<open>
  Two names that are equal up to the case of ASCII letters, and a match of \<open>h\<close> at home
  against \<open>a\<close> that has both score values.
\<close>

definition same_name :: "string \<Rightarrow> string \<Rightarrow> bool" where
  "same_name x y = (map tolower x = map tolower y)"

definition scored_fixture :: "string \<Rightarrow> string \<Rightarrow> football_match \<Rightarrow> bool" where
  "scored_fixture h a m =
     (case (home_team m, away_team m) of
        (Some x, Some y) \<Rightarrow> same_name x h \<and> same_name y a \<and> both_set m
      | _ \<Rightarrow> False)"

text \<open>
  The three matches of the scenario: A against B 2-1, B against A 0-0, A against B 1-1.
\<close>

definition match_of :: "string \<Rightarrow> string \<Rightarrow> int \<Rightarrow> int \<Rightarrow> string \<Rightarrow> football_match" where
  "match_of h a sh sa d =
     \<lparr>home_team = Some h, away_team = Some a,
      score = Some [(''home'', JInt sh), (''away'', JInt sa)],
      date = Some d, other = []\<rparr>"

definition three_matches :: "football_match list" where
  "three_matches =
     [match_of ''A'' ''B'' 2 1 ''2024-01-01'',
      match_of ''B'' ''A'' 0 0 ''2024-02-01'',
      match_of ''A'' ''B'' 1 1 ''2024-03-01'']"




definition text_score_match :: football_match where
  "text_score_match =
     \<lparr>home_team = Some ''A'', away_team = Some ''B'',
      score = Some [(''home'', JStr ''n/a''), (''away'', JStr ''n/a'')],
      date = Some ''2024-06-01'', other = []\<rparr>"

definition reverse_match :: football_match where
  "reverse_match = match_of ''B'' ''A'' 3 0 ''2024-07-01''"

text \<open>
  The date of a match as \<^verbatim>\<open>strtotime\<close> reads it: a time after, before or at the epoch
  (a match without a date counts as at the epoch), or no time at all.
\<close>

definition dated_after_epoch :: "php_env \<Rightarrow> football_match \<Rightarrow> bool" where
  "dated_after_epoch env m =
     (case date m of
        None \<Rightarrow> False
      | Some d \<Rightarrow> (case strtotime env d of Some t \<Rightarrow> 0 < t | None \<Rightarrow> False))"

definition dated_before_epoch :: "php_env \<Rightarrow> football_match \<Rightarrow> bool" where
  "dated_before_epoch env m =
     (case date m of
        None \<Rightarrow> False
      | Some d \<Rightarrow> (case strtotime env d of Some t \<Rightarrow> t < 0 | None \<Rightarrow> False))"

definition unparsable :: "php_env \<Rightarrow> football_match \<Rightarrow> bool" where
  "unparsable env m = (case date m of None \<Rightarrow> False | Some d \<Rightarrow> strtotime env d = None)"

definition at_epoch :: "php_env \<Rightarrow> football_match \<Rightarrow> bool" where
  "at_epoch env m = (case date m of None \<Rightarrow> True | Some d \<Rightarrow> strtotime env d = Some 0)"

text \<open>
  A match without a date or with one that does not parse, and the time under which a
  match is sorted when that counts as 0.
\<close>

definition undated :: "php_env \<Rightarrow> football_match \<Rightarrow> bool" where
  "undated env m = (case date m of None \<Rightarrow> True | Some d \<Rightarrow> strtotime env d = None)"

definition sort_seconds :: "php_env \<Rightarrow> football_match \<Rightarrow> int" where
  "sort_seconds env m =
     (case date m of
        None \<Rightarrow> 0
      | Some d \<Rightarrow> (case strtotime env d of Some t \<Rightarrow> t | None \<Rightarrow> 0))"

text \<open>
  A match of 1960 and a match without a date.
\<close>

definition old_match :: football_match where
  "old_match =
     \<lparr>home_team = Some ''A'', away_team = Some ''B'',
      score = Some [(''home'', JInt 1), (''away'', JInt 0)],
      date = Some ''1960-01-01'', other = []\<rparr>"

definition undated_match :: football_match where
  "undated_match =
     \<lparr>home_team = Some ''B'', away_team = Some ''A'',
      score = Some [(''home'', JInt 1), (''away'', JInt 0)],
      date = None, other = []\<rparr>"

text \<open>
  A parameter array as the signature of \<^verbatim>\<open>matchParameter\<close> expects it: string keys that
  PHP does not store as ints, and string values.
\<close>

definition string_valued :: "(string \<times> pval) list \<Rightarrow> bool" where
  "string_valued ps =
     list_all (\<lambda>(k, v). \<not> is_int_key k \<and> (case v of PStr _ \<Rightarrow> True | _ \<Rightarrow> False)) ps"

text \<open>
  The characters that \<^verbatim>\<open>htmlspecialchars\<close> replaces, and the keys that reach the
  default branch of the sanitizer.
\<close>

definition html_special :: "char \<Rightarrow> bool" where
  "html_special c = (c \<in> set [CHR 0x26, CHR 0x22, CHR 0x27, CHR 0x3C, CHR 0x3E])"

definition generic_key :: "string \<Rightarrow> bool" where
  "generic_key key =
     (key \<notin> set [''page'', ''page_size'', ''date'', ''both_teams_scored''] \<and>
      \<not> score_case key \<and> \<not> is_int_key key)"

text \<open>
  A match between a team and a team named by the escaped form of the first name, and a
  match of a team with an ampersand in its name.
\<close>

definition entity_match :: football_match where
  "entity_match =
     \<lparr>home_team = Some ''A&B'', away_team = Some ''A&amp;B'',
      score = Some [(''home'', JInt 1), (''away'', JInt 0)], date = Some ''2024-01-01'',
      other = []\<rparr>"

definition ampersand_match :: football_match where
  "ampersand_match =
     \<lparr>home_team = Some ''A&B'', away_team = Some ''C'',
      score = Some [(''home'', JInt 1), (''away'', JInt 0)], date = Some ''2024-01-01'',
      other = []\<rparr>"

section \<open>Properties\<close>

subsection \<open>Arithmetic\<close>

lemma sound_double:
  assumes "arithmetic_sound env"
  shows "x \<le> y \<Longrightarrow> to_double env x \<le> to_double env y"
    and "to_double env 0 = 0" and "to_double env 1 = 1"
  using assms by (auto simp: arithmetic_sound_def)

lemma sound_round:
  assumes "arithmetic_sound env"
  shows "x \<le> y \<Longrightarrow> php_round env 2 x \<le> php_round env 2 y"
    and "php_round env 2 0 = 0" and "php_round env 2 1 = 1"
  using assms by (auto simp: arithmetic_sound_def)

lemma double_nonneg: "arithmetic_sound env \<Longrightarrow> 0 \<le> x \<Longrightarrow> 0 \<le> to_double env x"
  using sound_double(1) [of env 0 x] sound_double(2) [of env] by simp

lemma double_count_pos: "arithmetic_sound env \<Longrightarrow> 0 < n \<Longrightarrow> 0 < to_double env (of_int n)"
proof -
  assume s: "arithmetic_sound env" and n: "0 < n"
  then have "(1 :: rat) \<le> of_int n" by simp
  from sound_double(1) [OF s this] sound_double(3) [OF s] show ?thesis by simp
qed

lemma int_div_range:
  assumes s: "arithmetic_sound env" and "0 \<le> k" "k \<le> n" "0 < n"
  shows "0 \<le> int_div env k n \<and> int_div env k n \<le> 1"
proof -
  let ?k = "to_double env (of_int k)" and ?n = "to_double env (of_int n)"
  have pos: "0 < ?n" using s assms(4) by (rule double_count_pos)
  have k0: "0 \<le> ?k" using s assms(2) by (intro double_nonneg) simp_all
  have kn: "?k \<le> ?n" using assms(3) by (intro sound_double(1) [OF s]) simp
  have "0 \<le> ?k / ?n" using k0 pos by simp
  moreover have "?k / ?n \<le> 1" using kn pos by simp
  ultimately have "to_double env 0 \<le> to_double env (?k / ?n)"
    "to_double env (?k / ?n) \<le> to_double env 1"
    by (auto intro: sound_double(1) [OF s])
  then show ?thesis by (simp add: int_div_def sound_double [OF s])
qed

lemma share_in_unit:
  assumes s: "arithmetic_sound env" and "0 \<le> k" "k \<le> n" "0 < n"
  shows "0 \<le> php_round env 2 (int_div env k n) \<and> php_round env 2 (int_div env k n) \<le> 1"
proof -
  from int_div_range [OF assms] have "php_round env 2 0 \<le> php_round env 2 (int_div env k n)"
    "php_round env 2 (int_div env k n) \<le> php_round env 2 1"
    by (auto intro: sound_round(1) [OF s])
  then show ?thesis by (simp add: sound_round [OF s])
qed





subsection \<open>The environment for evaluation\<close>

lemma half_away_nonneg: "0 \<le> z \<Longrightarrow> 0 \<le> \<lfloor>z + 1 / 2 :: rat\<rfloor>"
  by (simp add: zero_le_floor)

lemma round_half_away_mono: "x \<le> y \<Longrightarrow> round_half_away x \<le> round_half_away y"
proof -
  assume xy: "x \<le> y"
  show ?thesis
  proof (cases "0 \<le> x")
    case True
    with xy have "0 \<le> y" by simp
    with True xy show ?thesis
      by (simp add: round_half_away_def floor_mono)
  next
    case False
    show ?thesis
    proof (cases "0 \<le> y")
      case True
      have "0 \<le> \<lfloor>- x + 1 / 2\<rfloor>" using False half_away_nonneg [of "- x"] by simp
      moreover have "0 \<le> \<lfloor>y + 1 / 2\<rfloor>" using True half_away_nonneg by simp
      ultimately have "- \<lfloor>- x + 1 / 2\<rfloor> \<le> \<lfloor>y + 1 / 2\<rfloor>" by linarith
      then show ?thesis using False True unfolding round_half_away_def by simp
    next
      case yneg: False
      have "\<lfloor>- y + 1 / 2\<rfloor> \<le> \<lfloor>- x + 1 / 2\<rfloor>" using xy by (intro floor_mono) simp
      then show ?thesis using False yneg unfolding round_half_away_def by simp
    qed
  qed
qed

lemma round_places_mono: "x \<le> y \<Longrightarrow> round_places n x \<le> round_places n y"
  unfolding round_places_def
  by (intro divide_right_mono iffD2 [OF of_int_le_iff] round_half_away_mono mult_right_mono)
     simp_all

lemma round_places_fixed: "round_places 2 0 = 0" "round_places 2 1 = 1"
  by code_simp+

lemma iso_env_sound: "arithmetic_sound iso_env"
  by (simp add: arithmetic_sound_def iso_env_def round_places_mono round_places_fixed)

subsection \<open>The winner prediction\<close>

lemma strcasecmp_same_name: "strcasecmp x y = 0 \<longleftrightarrow> same_name x y"
  unfolding same_name_def
proof (induction x y rule: strcasecmp.induct)
  case (4 x xs y ys)
  show ?case
  proof (cases "tolower x = tolower y")
    case True
    with 4 show ?thesis by simp
  next
    case False
    then have "(of_char (tolower x) :: nat) \<noteq> of_char (tolower y)" by simp
    with False show ?thesis by simp
  qed
qed simp_all

lemma score_valid_both_set: "score_valid m = both_set m"
  by (simp add: score_valid_def both_set_def score_field_def split: option.splits)

lemma valid_h2h_fixture:
  "filter score_valid (h2hMatches h a ms) = filter (scored_fixture h a) ms"
  unfolding h2hMatches_def filter_filter
  by (rule filter_cong)
     (auto simp: scored_fixture_def strcasecmp_same_name score_valid_both_set split: option.splits)

lemma tally_inv:
  "foldl (tally env) (hw, aw, d) xs = (hw', aw', d') \<Longrightarrow>
     hw \<le> hw' \<and> aw \<le> aw' \<and> d \<le> d' \<and> hw' + aw' + d' = hw + aw + d + int (length xs)"
proof (induction xs arbitrary: hw aw d)
  case Nil
  then show ?case by simp
next
  case (Cons x xs)
  obtain h1 a1 d1 where step: "tally env (hw, aw, d) x = (h1, a1, d1)"
    by (cases "tally env (hw, aw, d) x") auto
  then have le: "hw \<le> h1 \<and> aw \<le> a1 \<and> d \<le> d1 \<and> h1 + a1 + d1 = hw + aw + d + 1"
    by (auto simp: tally_def split: if_splits)
  from Cons.prems step have "foldl (tally env) (h1, a1, d1) xs = (hw', aw', d')" by simp
  from Cons.IH [OF this] le show ?case by simp
qed

text \<open>
  Claim C6, as amended. With arithmetic that is monotone and exact at 0 and 1,
  \<^verbatim>\<open>predictWinner\<close> answers with one of the four winners and a confidence between 0 and
  1. It answers \<open>unknown\<close> with confidence 0 whenever a name is empty, there is no
  match, or no match has the home name at home, the away name away (both up to case)
  and both score values; and its winner is \<open>unknown\<close> in no other case than an empty name
  (which for PHP includes the name \<open>0\<close>) or no such match. Whether the score values are
  numbers plays no part.
\<close>

theorem predictWinner_range:
  assumes "arithmetic_sound env"
  shows "winner (predictWinner env h a ms) \<in> {''home'', ''away'', ''draw'', ''unknown''} \<and>
         0 \<le> confidence (predictWinner env h a ms) \<and>
         confidence (predictWinner env h a ms) \<le> 1 \<and>
         (h = [] \<or> a = [] \<or> ms = [] \<or> \<not> list_ex (scored_fixture h a) ms \<longrightarrow>
            predictWinner env h a ms = \<lparr>winner = ''unknown'', confidence = 0\<rparr>) \<and>
         (winner (predictWinner env h a ms) = ''unknown'' \<longleftrightarrow>
            php_empty h \<or> php_empty a \<or> \<not> list_ex (scored_fixture h a) ms)"
proof -
  let ?v = "filter (scored_fixture h a) ms"
  have v: "filter score_valid (h2hMatches h a ms) = ?v" by (rule valid_h2h_fixture)
  have ex: "?v = [] \<longleftrightarrow> \<not> list_ex (scored_fixture h a) ms"
    by (auto simp: filter_empty_conv list_ex_iff)
  show ?thesis
  proof (cases "php_empty h \<or> php_empty a \<or> ms = [] \<or> ?v = []")
    case True
    then have "predictWinner env h a ms = \<lparr>winner = ''unknown'', confidence = 0\<rparr>"
      by (auto simp: predictWinner_def Let_def v)
    moreover have "ms = [] \<Longrightarrow> \<not> list_ex (scored_fixture h a) ms" by simp
    ultimately show ?thesis using True ex by auto
  next
    case False
    then have ne: "?v \<noteq> []" and nh: "\<not> php_empty h" "\<not> php_empty a" "ms \<noteq> []"
      by auto
    obtain hw aw d where t: "foldl (tally env) (0, 0, 0) ?v = (hw, aw, d)"
      by (cases "foldl (tally env) (0, 0, 0) ?v") auto
    from tally_inv [OF t] have inv: "0 \<le> hw" "0 \<le> aw" "0 \<le> d" "hw + aw + d = int (length ?v)"
      by auto
    have pos: "0 < int (length ?v)" using ne by simp
    have b1: "0 \<le> php_round env 2 (int_div env hw (int (length ?v))) \<and>
              php_round env 2 (int_div env hw (int (length ?v))) \<le> 1"
      using inv pos by (intro share_in_unit [OF assms]) auto
    have b2: "0 \<le> php_round env 2 (int_div env aw (int (length ?v))) \<and>
              php_round env 2 (int_div env aw (int (length ?v))) \<le> 1"
      using inv pos by (intro share_in_unit [OF assms]) auto
    have b3: "0 \<le> php_round env 2 (int_div env d (int (length ?v))) \<and>
              php_round env 2 (int_div env d (int (length ?v))) \<le> 1"
      using inv pos by (intro share_in_unit [OF assms]) auto
    have "predictWinner env h a ms =
        (if hw > aw \<and> hw > d
         then \<lparr>winner = ''home'', confidence = php_round env 2 (int_div env hw (int (length ?v)))\<rparr>
         else if aw > hw \<and> aw > d
         then \<lparr>winner = ''away'', confidence = php_round env 2 (int_div env aw (int (length ?v)))\<rparr>
         else \<lparr>winner = ''draw'', confidence = php_round env 2 (int_div env d (int (length ?v)))\<rparr>)"
      using False t by (simp add: predictWinner_def Let_def v)
    then show ?thesis using b1 b2 b3 ne nh ex by (auto simp: php_empty_def)
  qed
qed

lemma predict_examples:
  "predictWinner iso_env ''A'' ''B'' three_matches = \<lparr>winner = ''draw'', confidence = 1 / 2\<rparr>"
  "predictWinner iso_env ''A'' ''B'' [reverse_match] = \<lparr>winner = ''unknown'', confidence = 0\<rparr>"
  "predictWinner iso_env [] ''B'' three_matches = \<lparr>winner = ''unknown'', confidence = 0\<rparr>"
  "\<not> list_ex (scored_fixture ''A'' ''B'') [reverse_match]"
  "list_ex (scored_fixture ''A'' ''B'') three_matches"
  "\<not> php_empty ''A''" "\<not> php_empty ''B''"
  by code_simp+

theorem predictWinner_range_witness:
  "arithmetic_sound iso_env \<and>
   \<not> list_ex (scored_fixture ''A'' ''B'') [reverse_match] \<and>
   predictWinner iso_env ''A'' ''B'' [reverse_match] = \<lparr>winner = ''unknown'', confidence = 0\<rparr> \<and>
   list_ex (scored_fixture ''A'' ''B'') three_matches \<and>
   winner (predictWinner iso_env ''A'' ''B'' three_matches) \<noteq> ''unknown'' \<and>
   confidence (predictWinner iso_env ''A'' ''B'' three_matches) \<le> 1"
  using predictWinner_range [OF iso_env_sound, of "''A''" "''B''" "[reverse_match]"]
        predictWinner_range [OF iso_env_sound, of "''A''" "''B''" three_matches]
        iso_env_sound predict_examples(4,5,6,7)
  by blast

text \<open>
  The claim as stated fails on a score that is there and is no number: the only match of
  the pair has the text \<open>n/a\<close> under both score keys, and the answer is a draw with
  confidence 1.
\<close>

theorem predictWinner_range_counterexample:
  "predictWinner iso_env ''A'' ''B'' [text_score_match] = \<lparr>winner = ''draw'', confidence = 1\<rparr> \<and>
   h2hMatches ''A'' ''B'' [text_score_match] = [text_score_match] \<and>
   score text_score_match = Some [(''home'', JStr ''n/a''), (''away'', JStr ''n/a'')] \<and>
   \<not> is_numeric iso_env ''n/a''"
  by code_simp

subsection \<open>The two both-teams-scored figures\<close>













subsection \<open>Sorting by date\<close>

lemma consistent_iff:
  "consistent cmp xs \<longleftrightarrow>
     (\<forall>a \<in> set xs. \<forall>b \<in> set xs. (cmp a b < 0) = (0 < cmp b a)) \<and>
     (\<forall>a \<in> set xs. \<forall>b \<in> set xs. \<forall>c \<in> set xs. cmp a b \<le> 0 \<longrightarrow> cmp b c \<le> 0 \<longrightarrow> cmp a c \<le> 0)"
  unfolding consistent_def list_all_iff if_bool_eq_conj by blast

lemma mset_usort_insert: "mset (usort_insert cmp x ys) = add_mset x (mset ys)"
  by (induction ys) auto

lemma mset_stable_sort: "mset (stable_sort cmp xs) = mset xs"
  by (induction xs) (auto simp: stable_sort_def mset_usort_insert)

lemma set_usort_insert: "set (usort_insert cmp x ys) = insert x (set ys)"
  by (induction ys) auto

lemma set_stable_sort: "set (stable_sort cmp xs) = set xs"
  by (metis mset_stable_sort set_mset_mset)

lemma insert_sorted:
  assumes sym: "\<forall>a \<in> S. \<forall>b \<in> S. (cmp a b < 0) = (0 < cmp b a)"
      and tr: "\<forall>a \<in> S. \<forall>b \<in> S. \<forall>c \<in> S. cmp a b \<le> 0 \<longrightarrow> cmp b c \<le> 0 \<longrightarrow> cmp a c \<le> 0"
      and "x \<in> S" and "set ys \<subseteq> S"
      and "sorted_wrt (\<lambda>a b. cmp a b \<le> 0) ys"
  shows "sorted_wrt (\<lambda>a b. cmp a b \<le> 0) (usort_insert cmp x ys)"
  using assms(4,5)
proof (induction ys)
  case Nil
  then show ?case by simp
next
  case (Cons y ys)
  from Cons.prems have yS: "y \<in> S" and ysS: "set ys \<subseteq> S"
    and ys: "\<forall>b \<in> set ys. cmp y b \<le> 0" and srt: "sorted_wrt (\<lambda>a b. cmp a b \<le> 0) ys"
    by auto
  show ?case
  proof (cases "cmp x y \<le> 0")
    case True
    have "cmp x b \<le> 0" if "b \<in> set ys" for b
      using tr assms(3) yS ysS that True ys by blast
    with True Cons.prems show ?thesis by auto
  next
    case False
    with sym assms(3) yS have "cmp y x < 0" by auto
    then have "\<forall>b \<in> set (usort_insert cmp x ys). cmp y b \<le> 0"
      using ys by (auto simp: set_usort_insert)
    with False Cons.IH [OF ysS srt] show ?thesis by simp
  qed
qed

lemma stable_sort_Cons:
  "stable_sort cmp (z # zs) = usort_insert cmp z (stable_sort cmp zs)"
  by (simp add: stable_sort_def)

lemma stable_sort_sorted:
  assumes "consistent cmp xs"
  shows "sorted_wrt (\<lambda>a b. cmp a b \<le> 0) (stable_sort cmp xs)"
proof -
  from assms have
    sym: "\<forall>a \<in> set xs. \<forall>b \<in> set xs. (cmp a b < 0) = (0 < cmp b a)" and
    tr: "\<forall>a \<in> set xs. \<forall>b \<in> set xs. \<forall>c \<in> set xs. cmp a b \<le> 0 \<longrightarrow> cmp b c \<le> 0 \<longrightarrow> cmp a c \<le> 0"
    unfolding consistent_iff by blast+
  have "set zs \<subseteq> set xs \<Longrightarrow> sorted_wrt (\<lambda>a b. cmp a b \<le> 0) (stable_sort cmp zs)" for zs
  proof (induction zs)
    case Nil
    show ?case unfolding stable_sort_def by simp
  next
    case (Cons z zs)
    from Cons.prems have 1: "z \<in> set xs" and 2: "set (stable_sort cmp zs) \<subseteq> set xs"
      by (simp_all add: set_stable_sort)
    from Cons.prems have "set zs \<subseteq> set xs" by simp
    then have ih: "sorted_wrt (\<lambda>a b. cmp a b \<le> 0) (stable_sort cmp zs)" by (rule Cons.IH)
    show ?case unfolding stable_sort_Cons by (rule insert_sorted [OF sym tr 1 2 ih])
  qed
  then show ?thesis by blast
qed

lemma spaceship_sym: "(spaceship x y < 0) = (0 < spaceship y x)"
  by (cases x; cases y) auto

lemma stamp_transitive:
  "spaceship y x \<le> 0 \<Longrightarrow> spaceship z y \<le> 0 \<Longrightarrow>
     spaceship z x \<le> 0 \<or>
     ((x = TFalse \<or> y = TFalse \<or> z = TFalse) \<and>
      (x = TInt 0 \<or> y = TInt 0 \<or> z = TInt 0) \<and>
      (spaceship x (TInt 0) < 0 \<or> spaceship y (TInt 0) < 0 \<or> spaceship z (TInt 0) < 0))"
  by (cases x; cases y; cases z) (auto split: if_splits)

lemma stamp_kinds:
  "dateValue env m = TFalse \<longleftrightarrow> unparsable env m"
  "dateValue env m = TInt 0 \<longleftrightarrow> at_epoch env m"
  "spaceship (dateValue env m) (TInt 0) < 0 \<longleftrightarrow> dated_before_epoch env m"
  by (auto simp: dateValue_def unparsable_def at_epoch_def dated_before_epoch_def
        split: option.splits if_splits)

lemma date_callback_consistent:
  "consistent (dateDescending env) ms \<longleftrightarrow>
     \<not> (list_ex (unparsable env) ms \<and> list_ex (dated_before_epoch env) ms \<and>
        list_ex (at_epoch env) ms)"
proof
  assume c: "consistent (dateDescending env) ms"
  show "\<not> (list_ex (unparsable env) ms \<and> list_ex (dated_before_epoch env) ms \<and>
        list_ex (at_epoch env) ms)"
  proof
    assume "list_ex (unparsable env) ms \<and> list_ex (dated_before_epoch env) ms \<and>
        list_ex (at_epoch env) ms"
    then obtain u b z where in_ms: "u \<in> set ms" "b \<in> set ms" "z \<in> set ms"
      and u: "dateValue env u = TFalse" and z: "dateValue env z = TInt 0"
      and b: "spaceship (dateValue env b) (TInt 0) < 0"
      unfolding list_ex_iff stamp_kinds [symmetric] by blast
    from b obtain t where t: "t < 0" "dateValue env b = TInt t"
      by (cases "dateValue env b") (auto split: if_splits)
    have "dateDescending env u z \<le> 0" "dateDescending env z b \<le> 0"
      "\<not> dateDescending env u b \<le> 0"
      using u z t by (simp_all add: dateDescending_def)
    with c in_ms show False unfolding consistent_iff by blast
  qed
next
  assume n: "\<not> (list_ex (unparsable env) ms \<and> list_ex (dated_before_epoch env) ms \<and>
        list_ex (at_epoch env) ms)"
  have tr: "dateDescending env a c \<le> 0"
    if "a \<in> set ms" "b \<in> set ms" "c \<in> set ms"
      "dateDescending env a b \<le> 0" "dateDescending env b c \<le> 0" for a b c
  proof -
    from stamp_transitive [of "dateValue env b" "dateValue env a" "dateValue env c"] that(4,5)
    consider "dateDescending env a c \<le> 0" |
      "unparsable env a \<or> unparsable env b \<or> unparsable env c"
      "at_epoch env a \<or> at_epoch env b \<or> at_epoch env c"
      "dated_before_epoch env a \<or> dated_before_epoch env b \<or> dated_before_epoch env c"
      unfolding dateDescending_def stamp_kinds by blast
    then show ?thesis
    proof cases
      case 1
      then show ?thesis .
    next
      case 2
      from 2(1) that(1,2,3) have "list_ex (unparsable env) ms"
        unfolding list_ex_iff by blast
      moreover from 2(2) that(1,2,3) have "list_ex (at_epoch env) ms"
        unfolding list_ex_iff by blast
      moreover from 2(3) that(1,2,3) have "list_ex (dated_before_epoch env) ms"
        unfolding list_ex_iff by blast
      ultimately show ?thesis using n by blast
    qed
  qed
  have sym: "(dateDescending env a b < 0) = (0 < dateDescending env b a)" for a b
    unfolding dateDescending_def by (rule spaceship_sym)
  show "consistent (dateDescending env) ms"
    unfolding consistent_iff using tr sym by blast
qed

lemma consistent_pair: "consistent (dateDescending env) [a, b]"
proof -
  have z: "dateDescending env x x = 0" for x
    by (cases "dateValue env x") (simp_all add: dateDescending_def)
  show ?thesis
    unfolding consistent_iff using z [of a] z [of b]
    by (auto simp: dateDescending_def spaceship_sym)
qed

lemma sortByDate_stable:
  "consistent (dateDescending env) ms \<Longrightarrow>
     sortByDate env ms = stable_sort (dateDescending env) ms"
  by (simp add: sortByDate_def usort_def)

lemma length_filter_stable_sort: "length (filter P (stable_sort cmp xs)) = length (filter P xs)"
proof -
  have "mset (filter P (stable_sort cmp xs)) = mset (filter P xs)"
    by (simp add: mset_stable_sort)
  then show ?thesis by (metis size_mset)
qed

lemma seconds_order:
  assumes "\<not> unparsable env a \<or> \<not> dated_before_epoch env b"
      and "\<not> unparsable env b \<or> \<not> dated_before_epoch env a"
  shows "dateDescending env a b \<le> 0 \<longleftrightarrow> sort_seconds env b \<le> sort_seconds env a"
  using assms
  by (auto simp: dateDescending_def dateValue_def sort_seconds_def unparsable_def
        dated_before_epoch_def split: option.splits)

text \<open>
  Claim C4, as amended. The callback of the sort is an order on the matches unless there
  are, together, a date that does not parse, a date before the epoch, and a match at the
  epoch or without a date. When it is an order, the output has the same matches, is sorted
  by the callback, and has no match without a readable date before a match dated after the
  epoch. When no date fails to parse, or no date is before the epoch, the output is in
  descending order of time, a missing or unreadable date counting as time 0.
\<close>

theorem sortByDate_order:
  "(consistent (dateDescending env) ms \<longleftrightarrow>
      \<not> (list_ex (unparsable env) ms \<and> list_ex (dated_before_epoch env) ms \<and>
         list_ex (at_epoch env) ms)) \<and>
   (consistent (dateDescending env) ms \<longrightarrow>
      mset (sortByDate env ms) = mset ms \<and>
      sorted_wrt (\<lambda>a b. dateDescending env a b \<le> 0) (sortByDate env ms) \<and>
      sorted_wrt (\<lambda>a b. \<not> (undated env a \<and> dated_after_epoch env b)) (sortByDate env ms)) \<and>
   (\<not> list_ex (unparsable env) ms \<or> \<not> list_ex (dated_before_epoch env) ms \<longrightarrow>
      sorted_wrt (\<lambda>a b. sort_seconds env b \<le> sort_seconds env a) (sortByDate env ms))"
proof -
  have main: "mset (sortByDate env ms) = mset ms \<and>
      sorted_wrt (\<lambda>a b. dateDescending env a b \<le> 0) (sortByDate env ms) \<and>
      sorted_wrt (\<lambda>a b. \<not> (undated env a \<and> dated_after_epoch env b)) (sortByDate env ms)"
    if c: "consistent (dateDescending env) ms"
  proof -
    have s: "sorted_wrt (\<lambda>a b. dateDescending env a b \<le> 0) (sortByDate env ms)"
      using stable_sort_sorted [OF c] by (simp add: sortByDate_stable [OF c])
    have "\<not> (undated env a \<and> dated_after_epoch env b)" if "dateDescending env a b \<le> 0" for a b
      using that
      by (auto simp: dateDescending_def dateValue_def undated_def dated_after_epoch_def
            split: option.splits if_splits)
    with s have "sorted_wrt (\<lambda>a b. \<not> (undated env a \<and> dated_after_epoch env b)) (sortByDate env ms)"
      by (rule sorted_wrt_mono_rel [rotated]) 
    with s show ?thesis by (simp add: sortByDate_stable [OF c] mset_stable_sort)
  qed
  have secs: "sorted_wrt (\<lambda>a b. sort_seconds env b \<le> sort_seconds env a) (sortByDate env ms)"
    if n: "\<not> list_ex (unparsable env) ms \<or> \<not> list_ex (dated_before_epoch env) ms"
  proof -
    from n have c: "consistent (dateDescending env) ms"
      by (auto simp: date_callback_consistent)
    from main [OF c] have s: "sorted_wrt (\<lambda>a b. dateDescending env a b \<le> 0) (sortByDate env ms)"
      and st: "set (sortByDate env ms) = set ms"
      by (auto dest: mset_eq_setD)
    have "sort_seconds env b \<le> sort_seconds env a"
      if "a \<in> set (sortByDate env ms)" "b \<in> set (sortByDate env ms)"
        "dateDescending env a b \<le> 0" for a b
    proof -
      from that(1,2) st n have "\<not> unparsable env a \<or> \<not> dated_before_epoch env b"
        "\<not> unparsable env b \<or> \<not> dated_before_epoch env a"
        by (auto simp: list_ex_iff)
      from seconds_order [OF this] that(3) show ?thesis by simp
    qed
    with s show ?thesis by (rule sorted_wrt_mono_rel [rotated])
  qed
  from date_callback_consistent main secs show ?thesis by blast
qed

text \<open>
  The claim as stated fails: a match without a date sorts as dated at the epoch, which is
  before a match of 1960 in descending order.
\<close>

theorem sortByDate_order_counterexample:
  "sortByDate iso_env [old_match, undated_match] = [undated_match, old_match] \<and>
   date old_match = Some ''1960-01-01'' \<and>
   strtotime iso_env ''1960-01-01'' = Some (- 315619200) \<and>
   date undated_match = None"
  by code_simp

lemma three_sorted:
  "sortByDate iso_env three_matches =
     [match_of ''A'' ''B'' 1 1 ''2024-03-01'',
      match_of ''B'' ''A'' 0 0 ''2024-02-01'',
      match_of ''A'' ''B'' 2 1 ''2024-01-01'']"
  "\<not> list_ex (unparsable iso_env) three_matches"
  "consistent (dateDescending iso_env) [old_match, undated_match]"
  "\<not> list_ex (unparsable iso_env) [old_match, undated_match]"
  by code_simp+

theorem sortByDate_order_witness:
  "\<not> list_ex (unparsable iso_env) three_matches \<and>
   sorted_wrt (\<lambda>a b. sort_seconds iso_env b \<le> sort_seconds iso_env a)
     [match_of ''A'' ''B'' 1 1 ''2024-03-01'',
      match_of ''B'' ''A'' 0 0 ''2024-02-01'',
      match_of ''A'' ''B'' 2 1 ''2024-01-01''] \<and>
   consistent (dateDescending iso_env) [old_match, undated_match] \<and>
   sorted_wrt (\<lambda>a b. dateDescending iso_env a b \<le> 0) [undated_match, old_match]"
proof -
  note a = sortByDate_order [of iso_env three_matches, unfolded three_sorted(1)]
  note b = sortByDate_order [of iso_env "[old_match, undated_match]"]
  have s: "sortByDate iso_env [old_match, undated_match] = [undated_match, old_match]"
    by code_simp
  from a three_sorted(2) have 1: "sorted_wrt (\<lambda>a b. sort_seconds iso_env b \<le> sort_seconds iso_env a)
     [match_of ''A'' ''B'' 1 1 ''2024-03-01'',
      match_of ''B'' ''A'' 0 0 ''2024-02-01'',
      match_of ''A'' ''B'' 2 1 ''2024-01-01'']"
    by blast
  from b three_sorted(3) have 2: "sorted_wrt (\<lambda>a b. dateDescending iso_env a b \<le> 0)
     (sortByDate iso_env [old_match, undated_match])"
    by blast
  from 1 2 three_sorted(2,3) show ?thesis unfolding s by (intro conjI)
qed

subsection \<open>The scenario of three matches\<close>

lemma key_facts:
  "\<not> is_int_key ''home_team''" "\<not> is_int_key ''away_team''"
  "\<not> is_int_key ''page''" "\<not> is_int_key ''page_size''" "\<not> is_int_key ''team''"
  "\<not> score_case ''home_team''" "\<not> score_case ''away_team''" "\<not> score_case ''team''"
  "htmlspecialchars ''A'' = ''A''" "htmlspecialchars ''B'' = ''B''"
  by code_simp+

lemma sanitize_pair:
  "validateAndSanitizeParams env [(''home_team'', ''A''), (''away_team'', ''B'')] =
     Inr [(''home_team'', PStr ''A''), (''away_team'', PStr ''B'')]"
  by (simp add: validateAndSanitizeParams_def sanitizeParam_def key_facts)

lemma filter_pair:
  "filterMatches env three_matches [(''home_team'', PStr ''A''), (''away_team'', PStr ''B'')] =
     Inr [match_of ''A'' ''B'' 2 1 ''2024-01-01'', match_of ''A'' ''B'' 1 1 ''2024-03-01'']"
  by code_simp

lemma pair_counts:
  "length (teamAnalysisMatches ''A'' ''B''
     [match_of ''A'' ''B'' 2 1 ''2024-01-01'', match_of ''A'' ''B'' 1 1 ''2024-03-01'']) = 2"
  "length (h2hMatches ''A'' ''B''
     [match_of ''A'' ''B'' 2 1 ''2024-01-01'', match_of ''A'' ''B'' 1 1 ''2024-03-01'']) = 2"
  by code_simp+

lemma pair_paging:
  "pageOf [(''home_team'', PStr ''A''), (''away_team'', PStr ''B'')] = 1"
  "pageSizeOf [(''home_team'', PStr ''A''), (''away_team'', PStr ''B'')] = 100"
  "teamParam [(''home_team'', PStr ''A''), (''away_team'', PStr ''B'')] ''home_team'' = ''A''"
  "teamParam [(''home_team'', PStr ''A''), (''away_team'', PStr ''B'')] ''away_team'' = ''B''"
  "\<not> php_empty ''A''" "\<not> php_empty ''B''"
  by code_simp+

text \<open>
  Claim C2. For the three matches and the query \<open>home_team=A\<close>, \<open>away_team=B\<close>, the
  filter keeps the two matches of A at home against B, the response has a team analysis
  with \<open>matches_count = 2\<close>, and the head-to-head subset that \<^verbatim>\<open>predictWinner\<close> takes from
  the sorted filtered matches has two matches as well; this holds for every reading of
  the dates.
\<close>

theorem three_matches_counts:
  "(\<exists>r ta pr. processRequest env three_matches [(''home_team'', ''A''), (''away_team'', ''B'')] = Inr r \<and>
      team_analysis r = Some ta \<and> matches_count ta = 2 \<and>
      prediction r = Some pr \<and>
      pr = runPrediction env ''A'' ''B'' (sortByDate env
             [match_of ''A'' ''B'' 2 1 ''2024-01-01'', match_of ''A'' ''B'' 1 1 ''2024-03-01''])) \<and>
   filterMatches env three_matches [(''home_team'', PStr ''A''), (''away_team'', PStr ''B'')] =
     Inr [match_of ''A'' ''B'' 2 1 ''2024-01-01'', match_of ''A'' ''B'' 1 1 ''2024-03-01''] \<and>
   length (h2hMatches ''A'' ''B'' (sortByDate env
             [match_of ''A'' ''B'' 2 1 ''2024-01-01'', match_of ''A'' ''B'' 1 1 ''2024-03-01''])) = 2"
proof -
  let ?f = "[match_of ''A'' ''B'' 2 1 ''2024-01-01'', match_of ''A'' ''B'' 1 1 ''2024-03-01'']"
  have s: "sortByDate env ?f = stable_sort (dateDescending env) ?f"
    by (rule sortByDate_stable) (rule consistent_pair)
  have ta: "length (teamAnalysisMatches ''A'' ''B'' (sortByDate env ?f)) = 2"
    unfolding s teamAnalysisMatches_def length_filter_stable_sort
    using pair_counts(1) by (simp only: teamAnalysisMatches_def)
  have h2h: "length (h2hMatches ''A'' ''B'' (sortByDate env ?f)) = 2"
    unfolding s h2hMatches_def length_filter_stable_sort
    using pair_counts(2) by (simp only: h2hMatches_def)
  have "PHP_INT_MAX \<ge> 0" by (simp add: PHP_INT_MAX_def)
  then have "processRequest env three_matches [(''home_team'', ''A''), (''away_team'', ''B'')] =
      Inr \<lparr>total_matches = length (sortByDate env ?f), page = 1, page_size = 100,
           matches = take 100 (sortByDate env ?f),
           team_analysis = Some (teamAnalysis env ''A'' ''B'' (sortByDate env ?f)),
           prediction = Some (runPrediction env ''A'' ''B'' (sortByDate env ?f)),
           teams = getAvailableTeams three_matches\<rparr>"
    by (simp add: processRequest_def sanitize_pair filter_pair Let_def pair_paging)
  moreover have "matches_count (teamAnalysis env ''A'' ''B'' (sortByDate env ?f)) = 2"
    using ta by (simp add: teamAnalysis_def Let_def)
  ultimately show ?thesis using h2h filter_pair by simp
qed

subsection \<open>Pagination\<close>

lemma page_query_sanitized:
  "validateAndSanitizeParams env [(''page_size'', ''1000''), (''page'', ''0'')] =
     Inr [(''page_size'', PInt 1000), (''page'', PInt 0)]"
proof -
  have "filter_validate_int ''1000'' = Some 1000" "filter_validate_int ''0'' = Some 0"
    by code_simp+
  then show ?thesis
    by (simp add: validateAndSanitizeParams_def sanitizeParam_def key_facts)
qed

text \<open>
  Claim C1. The claim describes the response for \<open>page_size=1000\<close>, \<open>page=0\<close>. The code
  does not get that far when a match is loaded: the filter passes every sanitized
  parameter, \<open>page\<close> and \<open>page_size\<close> with their int values included, to
  \<^verbatim>\<open>matchParameter\<close>, whose value parameter is declared a string, and the call raises
  \<^verbatim>\<open>TypeError\<close> at the first match.
\<close>

theorem page_query_type_error:
  "processRequest env (m # ms) [(''page_size'', ''1000''), (''page'', ''0'')] = Inl TypeError"
  unfolding processRequest_def page_query_sanitized
  by (simp add: filterMatches_def matchParameter_def key_facts)

lemma sort_nil: "sortByDate env [] = []"
  by (simp add: sortByDate_def usort_def consistent_def stable_sort_def)

text \<open>
  On the empty dataset the response is the one the claim describes.
\<close>

lemma page_query_empty_dataset:
  "processRequest env [] [(''page_size'', ''1000''), (''page'', ''0'')] =
     Inr \<lparr>total_matches = 0, page = 1, page_size = 500, matches = [],
          team_analysis = None, prediction = None, teams = []\<rparr>"
proof -
  have "pageOf [(''page_size'', PInt 1000), (''page'', PInt 0)] = 1"
       "pageSizeOf [(''page_size'', PInt 1000), (''page'', PInt 0)] = 500"
       "teamParam [(''page_size'', PInt 1000), (''page'', PInt 0)] ''home_team'' = []"
       "php_empty []" "getAvailableTeams [] = []" "0 \<le> PHP_INT_MAX"
    by code_simp+
  then show ?thesis
    unfolding processRequest_def page_query_sanitized
    by (simp add: filterMatches_def Let_def sort_nil)
qed

subsection \<open>Sanitizing the page parameters\<close>

lemma sanitizeParam_page_key:
  assumes "sanitizeParam env k v acc = Inr acc'" and "key = ''page'' \<or> key = ''page_size''"
  shows "map_of acc' key =
           (if k = key \<and> v \<noteq> []
            then Some (case filter_validate_int v of Some n \<Rightarrow> PInt n | None \<Rightarrow> PNull)
            else map_of acc key)"
proof (cases "k = key")
  case True
  with assms show ?thesis
    by (auto simp: sanitizeParam_def update_conv' key_facts split: if_splits)
next
  case False
  with assms(1) show ?thesis
    by (auto simp: sanitizeParam_def update_conv' split: if_splits option.splits)
qed

lemma sanitizeLoop_page_key:
  assumes "sanitizeLoop env raw acc = Inr ps" and "distinct (map fst raw)"
      and "key = ''page'' \<or> key = ''page_size''"
  shows "map_of ps key =
           (case map_of raw key of
              None \<Rightarrow> map_of acc key
            | Some v \<Rightarrow>
                if v = [] then map_of acc key
                else Some (case filter_validate_int v of Some n \<Rightarrow> PInt n | None \<Rightarrow> PNull))"
  using assms(1,2)
proof (induction raw arbitrary: acc)
  case Nil
  then show ?case by simp
next
  case (Cons p rest)
  obtain k v where p: "p = (k, v)" by (cases p)
  from Cons.prems(1) p obtain acc' where
    step: "sanitizeParam env k v acc = Inr acc'" and loop: "sanitizeLoop env rest acc' = Inr ps"
    by (auto split: sum.splits)
  from Cons.prems(2) p have d: "distinct (map fst rest)" and fresh: "k \<notin> fst ` set rest"
    by auto
  note ih = Cons.IH [OF loop d]
  note st = sanitizeParam_page_key [OF step assms(3)]
  show ?case
  proof (cases "k = key")
    case True
    with fresh have "map_of rest key = None" by (simp add: map_of_eq_None_iff)
    with ih st True p show ?thesis by simp
  next
    case False
    with ih st p show ?thesis by (simp split: option.splits)
  qed
qed

lemma page_key_null:
  assumes "key = ''page'' \<or> key = ''page_size''" and "v \<noteq> []" and "filter_validate_int v = None"
  shows "validateAndSanitizeParams env [(key, v)] = Inr [(key, PNull)]"
  using assms by (auto simp: validateAndSanitizeParams_def sanitizeParam_def key_facts)

lemma null_type_error:
  assumes "key = ''page'' \<or> key = ''page_size''"
  shows "filterMatches env (m # ms) [(key, PNull)] = Inl TypeError"
  using assms by (auto simp: filterMatches_def matchParameter_def key_facts)

text \<open>
  Claim C7. The code does not drop a \<open>page\<close> or \<open>page_size\<close> that is no integer: when
  the sanitizer returns and the raw keys are distinct, the key is in the sanitized array
  whenever its raw value is not empty, with the integer when the value validates as one
  and with null otherwise. The null does not lead to the default page: the filter hands it
  to \<^verbatim>\<open>matchParameter\<close> like every other entry, and a request with such a value raises
  \<^verbatim>\<open>TypeError\<close> as soon as one match is loaded.
\<close>

theorem page_key_not_integer:
  assumes "key = ''page'' \<or> key = ''page_size''"
  shows "(validateAndSanitizeParams env raw = Inr ps \<and> distinct (map fst raw) \<longrightarrow>
            map_of ps key =
              (case map_of raw key of
                 None \<Rightarrow> None
               | Some v \<Rightarrow>
                   if v = [] then None
                   else Some (case filter_validate_int v of Some n \<Rightarrow> PInt n | None \<Rightarrow> PNull))) \<and>
         (v \<noteq> [] \<and> filter_validate_int v = None \<longrightarrow>
            validateAndSanitizeParams env [(key, v)] = Inr [(key, PNull)] \<and>
            processRequest env (m # ms) [(key, v)] = Inl TypeError)"
proof -
  have a: "map_of ps key =
              (case map_of raw key of
                 None \<Rightarrow> None
               | Some v \<Rightarrow>
                   if v = [] then None
                   else Some (case filter_validate_int v of Some n \<Rightarrow> PInt n | None \<Rightarrow> PNull))"
    if "validateAndSanitizeParams env raw = Inr ps" "distinct (map fst raw)"
    using sanitizeLoop_page_key [OF that(1) [unfolded validateAndSanitizeParams_def] that(2) assms]
    by (simp split: option.splits)
  have b: "processRequest env (m # ms) [(key, v)] = Inl TypeError"
    if "v \<noteq> []" "filter_validate_int v = None"
    by (simp add: processRequest_def page_key_null [OF assms that] null_type_error [OF assms])
  from a b page_key_null [OF assms] show ?thesis by blast
qed

lemma page_query2:
  "validateAndSanitizeParams iso_env [(''page_size'', ''abc''), (''page'', ''2'')] =
     Inr [(''page_size'', PNull), (''page'', PInt 2)]"
  "filter_validate_int ''abc'' = None" "filter_validate_int ''2'' = Some 2"
  "''abc'' \<noteq> []" "distinct (map fst [(''page_size'', ''abc''), (''page'', ''2'')])"
  "map_of [(''page_size'', ''abc''), (''page'', ''2'')] ''page_size'' = Some ''abc''"
  by code_simp+

theorem page_key_not_integer_witness:
  "validateAndSanitizeParams iso_env [(''page_size'', ''abc''), (''page'', ''2'')] =
     Inr [(''page_size'', PNull), (''page'', PInt 2)] \<and>
   distinct (map fst [(''page_size'', ''abc''), (''page'', ''2'')]) \<and>
   map_of [(''page_size'', PNull), (''page'', PInt 2)] ''page_size'' = Some PNull \<and>
   ''abc'' \<noteq> [] \<and> filter_validate_int ''abc'' = None \<and>
   validateAndSanitizeParams iso_env [(''page_size'', ''abc'')] = Inr [(''page_size'', PNull)] \<and>
   processRequest iso_env [old_match] [(''page_size'', ''abc'')] = Inl TypeError"
proof -
  have k: "''page_size'' = ''page'' \<or> ''page_size'' = ''page_size''" by simp
  note t = page_key_not_integer [OF k, of iso_env "[(''page_size'', ''abc''), (''page'', ''2'')]"
             "[(''page_size'', PNull), (''page'', PInt 2)]" "''abc''" old_match "[]"]
  from t page_query2(1,5) have
    "map_of [(''page_size'', PNull), (''page'', PInt 2)] ''page_size'' =
       (case map_of [(''page_size'', ''abc''), (''page'', ''2'')] ''page_size'' of
          None \<Rightarrow> None
        | Some v \<Rightarrow>
            if v = [] then None
            else Some (case filter_validate_int v of Some n \<Rightarrow> PInt n | None \<Rightarrow> PNull))"
    by blast
  then have 1: "map_of [(''page_size'', PNull), (''page'', PInt 2)] ''page_size'' = Some PNull"
    unfolding page_query2(6) by (simp add: page_query2(2))
  from t page_query2(2,4) have 2:
    "validateAndSanitizeParams iso_env [(''page_size'', ''abc'')] = Inr [(''page_size'', PNull)]"
    "processRequest iso_env [old_match] [(''page_size'', ''abc'')] = Inl TypeError"
    by blast+
  from 1 2 page_query2(1,2,4,5) show ?thesis by (intro conjI)
qed

subsection \<open>Filtering\<close>

text \<open>
  Claim C9. With no parameter the filter hands back the sequence it was given: the same
  matches in the same order.
\<close>

theorem filterMatches_no_params: "filterMatches env ms [] = Inr ms"
  by (simp add: filterMatches_def)

lemma array_filter_Inr:
  "array_filter f xs = Inr ys \<longleftrightarrow>
     (\<forall>x \<in> set xs. \<exists>b. f x = Inr b) \<and> ys = filter (\<lambda>x. f x = Inr True) xs"
proof (induction xs arbitrary: ys)
  case Nil
  then show ?case by auto
next
  case (Cons x xs)
  show ?case
  proof (cases "f x")
    case (Inl e)
    then show ?thesis by auto
  next
    case (Inr keep)
    show ?thesis
    proof (cases "array_filter f xs")
      case (Inl e)
      with Cons.IH have "\<not> (\<forall>x \<in> set xs. \<exists>b. f x = Inr b)" by auto
      with Inl Inr show ?thesis by auto
    next
      case inner: (Inr zs)
      with Cons.IH [of zs] Inr show ?thesis by auto
    qed
  qed
qed

lemma array_filter_Inl:
  "array_filter f xs = Inl TypeError \<longleftrightarrow> (\<exists>x \<in> set xs. f x = Inl TypeError)"
proof -
  have "array_filter f xs = Inl TypeError \<longleftrightarrow> \<not> (\<exists>ys. array_filter f xs = Inr ys)"
    by (cases "array_filter f xs") (auto intro: php_error.exhaust)
  also have "\<dots> \<longleftrightarrow> \<not> (\<forall>x \<in> set xs. \<exists>b. f x = Inr b)"
    by (simp add: array_filter_Inr)
  also have "\<dots> \<longleftrightarrow> (\<exists>x \<in> set xs. f x = Inl TypeError)"
    by (metis php_error.exhaust sum.exhaust_sel sum.disc(1) sum.collapse(1) sum.distinct(1) old.sum.exhaust)
  finally show ?thesis .
qed

lemma matchAll_snoc:
  "matchAll env m (ps @ [(k, v)]) =
     (case matchAll env m ps of
        Inl e \<Rightarrow> Inl e
      | Inr False \<Rightarrow> Inr False
      | Inr True \<Rightarrow> matchParameter env m k v)"
proof (induction ps)
  case Nil
  show ?case by (cases "matchParameter env m k v") (auto split: bool.splits)
next
  case (Cons p ps)
  obtain k' v' where p: "p = (k', v')" by (cases p)
  with Cons show ?case
    by (cases "matchParameter env m k' v'") (auto split: bool.splits)
qed

lemma matchAll_append:
  "matchAll env m (ps @ [(k, v)]) = Inr b \<Longrightarrow> \<exists>b0. matchAll env m ps = Inr b0 \<and> (b \<longrightarrow> b0)"
  unfolding matchAll_snoc by (auto split: sum.splits bool.splits)

lemma filterMatches_Inr:
  "filterMatches env ms ps = Inr xs \<longleftrightarrow>
     (\<forall>m \<in> set ms. \<exists>b. matchAll env m ps = Inr b) \<and>
     xs = filter (\<lambda>m. matchAll env m ps = Inr True) ms"
proof (cases "ps = []")
  case True
  then show ?thesis by (auto simp: filterMatches_def)
next
  case False
  then show ?thesis by (simp add: filterMatches_def array_filter_Inr)
qed

lemma filterMatches_append:
  assumes "filterMatches env ms (ps @ [(k, v)]) = Inr ys"
  shows "\<exists>xs. filterMatches env ms ps = Inr xs \<and> set ys \<subseteq> set xs"
proof -
  let ?f = "\<lambda>m. matchAll env m (ps @ [(k, v)])"
  let ?g = "\<lambda>m. matchAll env m ps"
  from assms have ok: "\<forall>m \<in> set ms. \<exists>b. ?f m = Inr b"
    and ys: "ys = filter (\<lambda>m. ?f m = Inr True) ms"
    by (simp_all add: filterMatches_Inr)
  have step: "\<exists>b0. ?g m = Inr b0 \<and> (?f m = Inr True \<longrightarrow> b0)" if "m \<in> set ms" for m
  proof -
    from ok that obtain b where b: "?f m = Inr b" by blast
    from matchAll_append [OF b] b show ?thesis by auto
  qed
  have kept: "?g m = Inr True" if "m \<in> set ms" "?f m = Inr True" for m
    using step [OF that(1)] that(2) by auto
  from step have "\<forall>m \<in> set ms. \<exists>b. ?g m = Inr b" by blast
  then have "filterMatches env ms ps = Inr (filter (\<lambda>m. ?g m = Inr True) ms)"
    by (simp add: filterMatches_Inr)
  moreover have "set ys \<subseteq> set (filter (\<lambda>m. ?g m = Inr True) ms)"
    using ys kept by auto
  ultimately show ?thesis by blast
qed

lemma filterMatches_snoc:
  assumes "filterMatches env ms ps = Inr xs"
  shows "filterMatches env ms (ps @ [(k, v)]) =
           (if xs = [] then Inr []
            else if string_valued [(k, v)]
              then Inr (filter (\<lambda>m. matchParameter env m k v = Inr True) xs)
              else Inl TypeError)"
proof -
  let ?f = "\<lambda>m. matchAll env m (ps @ [(k, v)])"
  let ?g = "\<lambda>m. matchAll env m ps"
  from assms have ok: "\<forall>m \<in> set ms. \<exists>b. ?g m = Inr b"
    and xs: "xs = filter (\<lambda>m. ?g m = Inr True) ms"
    by (simp_all add: filterMatches_Inr)
  have f: "?f m = (if ?g m = Inr True then matchParameter env m k v else Inr False)"
    if "m \<in> set ms" for m
  proof -
    from ok that obtain b where "?g m = Inr b" by blast
    then show ?thesis by (cases b) (simp_all add: matchAll_snoc)
  qed
  show ?thesis
  proof (cases "xs = []")
    case True
    with xs have "filter (\<lambda>m. ?g m = Inr True) ms = []" by simp
    then have "\<forall>m \<in> set ms. ?g m \<noteq> Inr True" by (simp add: filter_empty_conv)
    with f have "\<forall>m \<in> set ms. ?f m = Inr False" by simp
    then have none: "\<forall>m \<in> set ms. ?f m \<noteq> Inr True"
      and every: "\<forall>m \<in> set ms. \<exists>b. ?f m = Inr b"
      by (simp, blast)
    from none have "[] = filter (\<lambda>m. ?f m = Inr True) ms"
      by (simp only: filter_empty_conv [THEN iffD2] simp_thms)
    with every have "filterMatches env ms (ps @ [(k, v)]) = Inr []"
      unfolding filterMatches_Inr by blast
    with True show ?thesis by simp
  next
    case False
    show ?thesis
    proof (cases "string_valued [(k, v)]")
      case True
      then have mp: "\<exists>b. matchParameter env m k v = Inr b" for m
        by (cases v) (simp_all add: string_valued_def matchParameter_def)
      have "\<exists>b. ?f m = Inr b" if "m \<in> set ms" for m
        using f [OF that] mp [of m] by (cases "?g m = Inr True") auto
      then have "\<forall>m \<in> set ms. \<exists>b. ?f m = Inr b" by blast
      moreover have "filter (\<lambda>m. ?f m = Inr True) ms =
          filter (\<lambda>m. matchParameter env m k v = Inr True) xs"
        unfolding xs filter_filter by (rule filter_cong) (auto simp: f)
      ultimately have "filterMatches env ms (ps @ [(k, v)]) =
          Inr (filter (\<lambda>m. matchParameter env m k v = Inr True) xs)"
        unfolding filterMatches_Inr by simp
      with True False show ?thesis by simp
    next
      case bad: False
      then have e: "matchParameter env m k v = Inl TypeError" for m
        by (cases v) (simp_all add: string_valued_def matchParameter_def)
      from False xs obtain m where m: "m \<in> set ms" "?g m = Inr True"
        by (auto simp: filter_empty_conv)
      with f e have "?f m = Inl TypeError" by simp
      with m(1) have "array_filter ?f ms = Inl TypeError"
        unfolding array_filter_Inl by blast
      then have "filterMatches env ms (ps @ [(k, v)]) = Inl TypeError"
        by (simp add: filterMatches_def)
      with bad False show ?thesis by simp
    qed
  qed
qed

lemma team_page_query:
  "validateAndSanitizeParams env [(''team'', ''a''), (''page'', ''2'')] =
     Inr [(''team'', PStr ''a''), (''page'', PInt 2)]"
proof -
  have "filter_validate_int ''2'' = Some 2" "htmlspecialchars ''a'' = ''a''"
    by code_simp+
  then show ?thesis
    by (simp add: validateAndSanitizeParams_def sanitizeParam_def key_facts)
qed

lemma team_filter:
  "filterMatches env three_matches [(''team'', PStr ''a'')] = Inr three_matches"
  "three_matches \<noteq> []"
  "\<not> string_valued [(''page'', PInt 2)]"
  by code_simp+

text \<open>
  Claim C8. What one more entry at the end of the parameter array does to a filter that
  returns: nothing is kept when nothing was kept before; otherwise a string value under a
  string key keeps those of the kept matches that pass the new entry, and any other entry
  raises \<^verbatim>\<open>TypeError\<close>. So the result shrinks when there is one, but the entries that the
  sanitizer stores under \<open>page\<close> and \<open>page_size\<close> leave no result: for the three matches
  \<open>team=a\<close> keeps all, and \<open>team=a\<close> with \<open>page=2\<close> raises the error.
\<close>

theorem filterMatches_extended:
  "(filterMatches env ms ps = Inr xs \<longrightarrow>
      filterMatches env ms (ps @ [(k, v)]) =
        (if xs = [] then Inr []
         else if string_valued [(k, v)]
           then Inr (filter (\<lambda>m. matchParameter env m k v = Inr True) xs)
           else Inl TypeError)) \<and>
   (filterMatches env ms (ps @ [(k, v)]) = Inr ys \<longrightarrow>
      (\<exists>xs. filterMatches env ms ps = Inr xs \<and> set ys \<subseteq> set xs)) \<and>
   validateAndSanitizeParams env [(''team'', ''a''), (''page'', ''2'')] =
     Inr [(''team'', PStr ''a''), (''page'', PInt 2)] \<and>
   filterMatches env three_matches [(''team'', PStr ''a'')] = Inr three_matches \<and>
   filterMatches env three_matches [(''team'', PStr ''a''), (''page'', PInt 2)] = Inl TypeError"
proof -
  have "filterMatches env three_matches ([(''team'', PStr ''a'')] @ [(''page'', PInt 2)]) =
      Inl TypeError"
    unfolding filterMatches_snoc [OF team_filter(1)] using team_filter(2,3) by simp
  then have "filterMatches env three_matches [(''team'', PStr ''a''), (''page'', PInt 2)] =
      Inl TypeError"
    by simp
  with filterMatches_snoc filterMatches_append team_page_query team_filter(1)
  show ?thesis by blast
qed

lemma extended_example:
  "filterMatches iso_env three_matches [(''team'', PStr ''a'')] = Inr three_matches"
  "three_matches \<noteq> []"
  "\<not> string_valued [(''page'', PInt 2)]"
  "filterMatches iso_env three_matches ([(''team'', PStr ''a'')] @ [(''score_home'', PStr ''2'')]) =
     Inr [match_of ''A'' ''B'' 2 1 ''2024-01-01'']"
  by code_simp+

theorem filterMatches_extended_witness:
  "filterMatches iso_env three_matches [(''team'', PStr ''a'')] = Inr three_matches \<and>
   three_matches \<noteq> [] \<and> \<not> string_valued [(''page'', PInt 2)] \<and>
   filterMatches iso_env three_matches ([(''team'', PStr ''a'')] @ [(''page'', PInt 2)]) =
     Inl TypeError \<and>
   filterMatches iso_env three_matches ([(''team'', PStr ''a'')] @ [(''score_home'', PStr ''2'')]) =
     Inr [match_of ''A'' ''B'' 2 1 ''2024-01-01''] \<and>
   set [match_of ''A'' ''B'' 2 1 ''2024-01-01''] \<subseteq> set three_matches"
proof -
  note a = filterMatches_extended [of iso_env three_matches "[(''team'', PStr ''a'')]"
             three_matches "''page''" "PInt 2"]
  note b = filterMatches_extended [of iso_env three_matches "[(''team'', PStr ''a'')]"
             three_matches "''score_home''" "PStr ''2''" "[match_of ''A'' ''B'' 2 1 ''2024-01-01'']"]
  from a extended_example(1) have
    "filterMatches iso_env three_matches ([(''team'', PStr ''a'')] @ [(''page'', PInt 2)]) =
       (if three_matches = [] then Inr []
        else if string_valued [(''page'', PInt 2)]
          then Inr (filter (\<lambda>m. matchParameter iso_env m ''page'' (PInt 2) = Inr True) three_matches)
          else Inl TypeError)"
    by blast
  with extended_example(2,3) have 1:
    "filterMatches iso_env three_matches ([(''team'', PStr ''a'')] @ [(''page'', PInt 2)]) =
       Inl TypeError"
    by (simp only: if_False)
  from b extended_example(4) obtain xs where
    xs: "filterMatches iso_env three_matches [(''team'', PStr ''a'')] = Inr xs"
      "set [match_of ''A'' ''B'' 2 1 ''2024-01-01''] \<subseteq> set xs"
    by blast
  from xs(1) extended_example(1) have "xs = three_matches" by (simp only: sum.inject)
  with xs(2) have 2: "set [match_of ''A'' ''B'' 2 1 ''2024-01-01''] \<subseteq> set three_matches"
    by (simp only:)
  from 1 2 extended_example show ?thesis by (intro conjI)
qed

subsection \<open>Escaped parameter values\<close>

lemma strcasecmp_zero_length: "strcasecmp a b = 0 \<Longrightarrow> length a = length b"
proof (induction a b rule: strcasecmp.induct)
  case (4 x xs y ys)
  show ?case
  proof (cases "tolower x = tolower y")
    case True
    with 4 show ?thesis by simp
  next
    case False
    then have "(of_char (tolower x) :: nat) \<noteq> of_char (tolower y)" by simp
    with False 4 show ?thesis by simp
  qed
qed simp_all

lemma html_entity_length: "1 \<le> length (html_entity c)" "html_special c \<Longrightarrow> 1 < length (html_entity c)"
  by (auto simp: html_entity_def html_special_def)

lemma escaped_length: "length v \<le> length (concat (map html_entity v))"
proof (induction v)
  case Nil
  then show ?case by simp
next
  case (Cons c v)
  with html_entity_length(1) [of c] show ?case by simp
qed

lemma escaped_longer:
  "list_ex html_special v \<Longrightarrow> length v < length (concat (map html_entity v))"
proof (induction v)
  case Nil
  then show ?case by simp
next
  case (Cons c v)
  show ?case
  proof (cases "html_special c")
    case True
    with html_entity_length(2) [of c] escaped_length [of v] show ?thesis by simp
  next
    case False
    with Cons html_entity_length(1) [of c] show ?thesis by simp
  qed
qed

lemma escaped_differs:
  assumes "list_ex html_special v" and "strcasecmp f v = 0"
  shows "strcasecmp f (htmlspecialchars v) \<noteq> 0"
proof
  assume "strcasecmp f (htmlspecialchars v) = 0"
  then have "length f = length (htmlspecialchars v)" by (rule strcasecmp_zero_length)
  moreover from assms(2) have "length f = length v" by (rule strcasecmp_zero_length)
  moreover have "v \<noteq> []" using assms(1) by auto
  moreover note escaped_longer [OF assms(1)]
  ultimately show False by (auto simp: htmlspecialchars_def split: if_splits)
qed

lemma team_key_facts:
  "generic_key ''team''" "generic_key ''home_team''" "generic_key ''away_team''"
  by code_simp+

text \<open>
  Claim C10, as amended. A value with one of the five characters, under a key of the
  default branch, is stored in its escaped form, and a field that equals the raw value
  up to case never equals the escaped form. So a match fails \<open>home_team\<close>, \<open>away_team\<close>
  or any other such key when the field compared equals the raw value; under \<open>team\<close>
  one field that equals the raw value does not make the match pass, which then depends
  on the other team field alone, and a match without one of the team fields fails.
\<close>

theorem escaped_value_comparison:
  assumes "generic_key key" and "list_ex html_special v" and "strcasecmp f v = 0"
  shows "validateAndSanitizeParams env [(key, v)] = Inr [(key, PStr (htmlspecialchars v))] \<and>
         strcasecmp f (htmlspecialchars v) \<noteq> 0 \<and>
         (home_team m = Some f \<longrightarrow>
            matchParameter env m ''home_team'' (PStr (htmlspecialchars v)) = Inr False) \<and>
         (away_team m = Some f \<longrightarrow>
            matchParameter env m ''away_team'' (PStr (htmlspecialchars v)) = Inr False) \<and>
         (key \<notin> set [''team'', ''home_team'', ''away_team''] \<and> match_field m key = Some f \<longrightarrow>
            matchParameter env m key (PStr (htmlspecialchars v)) = Inr False) \<and>
         (home_team m = Some f \<and> away_team m = Some g \<longrightarrow>
            matchParameter env m ''team'' (PStr (htmlspecialchars v)) =
              Inr (strcasecmp g (htmlspecialchars v) = 0)) \<and>
         (home_team m = Some g \<and> away_team m = Some f \<longrightarrow>
            matchParameter env m ''team'' (PStr (htmlspecialchars v)) =
              Inr (strcasecmp g (htmlspecialchars v) = 0)) \<and>
         (home_team m = None \<or> away_team m = None \<longrightarrow>
            matchParameter env m ''team'' (PStr (htmlspecialchars v)) = Inr False)"
proof -
  let ?e = "htmlspecialchars v"
  have ne: "v \<noteq> []" using assms(2) by auto
  have d: "strcasecmp f ?e \<noteq> 0" using assms(2,3) by (rule escaped_differs)
  have s: "validateAndSanitizeParams env [(key, v)] = Inr [(key, PStr ?e)]"
    using assms(1) ne by (simp add: validateAndSanitizeParams_def sanitizeParam_def generic_key_def)
  have h: "matchParameter env m ''home_team'' (PStr ?e) = Inr False" if "home_team m = Some f"
    using that d by (simp add: matchParameter_def key_facts matchesHomeTeam_def)
  have a: "matchParameter env m ''away_team'' (PStr ?e) = Inr False" if "away_team m = Some f"
    using that d by (simp add: matchParameter_def key_facts matchesAwayTeam_def)
  have g: "matchParameter env m key (PStr ?e) = Inr False"
    if "key \<notin> set [''team'', ''home_team'', ''away_team'']" "match_field m key = Some f"
    using that d assms(1) by (simp add: matchParameter_def generic_key_def matchesDefault_def)
  have t1: "matchParameter env m ''team'' (PStr ?e) = Inr (strcasecmp g ?e = 0)"
    if "home_team m = Some f" "away_team m = Some g"
    using that d by (simp add: matchParameter_def key_facts matchesTeam_def)
  have t2: "matchParameter env m ''team'' (PStr ?e) = Inr (strcasecmp g ?e = 0)"
    if "home_team m = Some g" "away_team m = Some f"
    using that d by (simp add: matchParameter_def key_facts matchesTeam_def)
  have t3: "matchParameter env m ''team'' (PStr ?e) = Inr False"
    if "home_team m = None \<or> away_team m = None"
    using that by (auto simp: matchParameter_def key_facts matchesTeam_def split: option.splits)
  from s d h a g t1 t2 t3 show ?thesis by blast
qed

text \<open>
  The claim as stated fails under \<open>team\<close>: a match whose home team is the raw value
  passes when its away team is named by the escaped form.
\<close>

theorem escaped_value_comparison_counterexample:
  "validateAndSanitizeParams iso_env [(''team'', ''A&B'')] = Inr [(''team'', PStr ''A&amp;B'')] \<and>
   home_team entity_match = Some ''A&B'' \<and>
   strcasecmp ''A&B'' ''A&B'' = 0 \<and>
   matchParameter iso_env entity_match ''team'' (PStr ''A&amp;B'') = Inr True \<and>
   filterMatches iso_env [entity_match] [(''team'', PStr ''A&amp;B'')] = Inr [entity_match]"
  by code_simp

lemma ampersand_facts:
  "generic_key ''team''" "list_ex html_special ''a&b''" "strcasecmp ''A&B'' ''a&b'' = 0"
  "htmlspecialchars ''a&b'' = ''a&amp;b''" "strcasecmp ''C'' ''a&amp;b'' \<noteq> 0"
  "home_team ampersand_match = Some ''A&B''" "away_team ampersand_match = Some ''C''"
  by code_simp+

theorem escaped_value_comparison_witness:
  "generic_key ''team'' \<and> list_ex html_special ''a&b'' \<and> strcasecmp ''A&B'' ''a&b'' = 0 \<and>
   home_team ampersand_match = Some ''A&B'' \<and> away_team ampersand_match = Some ''C'' \<and>
   validateAndSanitizeParams iso_env [(''team'', ''a&b'')] = Inr [(''team'', PStr ''a&amp;b'')] \<and>
   matchParameter iso_env ampersand_match ''team'' (PStr ''a&amp;b'') = Inr False \<and>
   matchParameter iso_env ampersand_match ''home_team'' (PStr ''a&amp;b'') = Inr False"
proof -
  note t = escaped_value_comparison [OF ampersand_facts(1,2,3), of iso_env ampersand_match "''C''",
             unfolded ampersand_facts(4)]
  from t have s: "validateAndSanitizeParams iso_env [(''team'', ''a&b'')] =
      Inr [(''team'', PStr ''a&amp;b'')]"
    by (rule conjunct1)
  from t ampersand_facts(6) have h:
    "matchParameter iso_env ampersand_match ''home_team'' (PStr ''a&amp;b'') = Inr False"
    by blast
  from t ampersand_facts(6,7) have
    "matchParameter iso_env ampersand_match ''team'' (PStr ''a&amp;b'') =
       Inr (strcasecmp ''C'' ''a&amp;b'' = 0)"
    by blast
  with ampersand_facts(5) have tm:
    "matchParameter iso_env ampersand_match ''team'' (PStr ''a&amp;b'') = Inr False"
    by (simp only: simp_thms)
  from s h tm ampersand_facts(1,2,3,6,7) show ?thesis by (intro conjI)
qed

end
